theory Spec2Isabelle
  imports Main "HOL-Library.Word" "HOL-Library.Char_ord" "HOL-Library.List_Lexorder"
begin

unbundle bit_operations_syntax

chapter \<open>The output writer of the WebAssembly linker (wasm/Writer.cpp)\<close>

text \<open>
  A shallow embedding of the parts of \<^verbatim>\<open>Writer.cpp\<close> that plan indices, lay out memory,
  build sections and synthesise the two function bodies (\<^verbatim>\<open>__wasm_call_ctors\<close> and the
  \<^verbatim>\<open>apply\<close> dispatcher). Member variables of \<^verbatim>\<open>Writer\<close>, the symbol objects and the
  error handler are mutable in the source; here they are fields of one state record that
  every operation takes and returns. Pointers to symbols are addresses into a store.
\<close>

section \<open>Data model\<close>

type_synonym u8 = "8 word"
type_synonym u32 = "32 word"
type_synonym u64 = "64 word"

datatype ValType = I32 | I64 | F32 | F64 | NORESULT

text \<open>\<^verbatim>\<open>llvm::wasm::WasmSignature\<close>, built in the source as \<^verbatim>\<open>WasmSignature{{}, WASM_TYPE_NORESULT}\<close>.\<close>

datatype WasmSignature = WasmSignature (ParamTypes: "ValType list") (ReturnType: ValType)

datatype WasmGlobalType = WasmGlobalType (Type: ValType) (Mutable: bool)

text \<open>
  The symbol classes are declared in \<^verbatim>\<open>Symbols.h\<close>, which is not part of the sources at hand.
  Modelled from the spec: its data model has the variant
  \<^verbatim>\<open>Function | Global | Data | Section\<close> with a defined or undefined state; the kinds below
  are the classes the writer tests with \<^verbatim>\<open>isa\<close>, \<^verbatim>\<open>dyn_cast\<close> and \<^verbatim>\<open>cast\<close>
  (\<^verbatim>\<open>DefinedFunction\<close>, \<^verbatim>\<open>DefinedGlobal\<close>, \<^verbatim>\<open>DefinedData\<close>, \<^verbatim>\<open>SectionSymbol\<close>, the
  undefined function, global and data symbols) and the lazy archive symbol, which is neither
  defined nor undefined.
\<close>

datatype Kind =
    DefinedFunctionKind | DefinedDataKind | DefinedGlobalKind | SectionKind
  | UndefinedFunctionKind | UndefinedDataKind | UndefinedGlobalKind | LazyKind

type_synonym symref = nat

record Symbol =
  getName :: string
  SymbolKind :: Kind
  isLocal :: bool
  isWeak :: bool
  isHidden :: bool
  isLive :: bool
  IsUsedInRegularObj :: bool
  getFunctionType :: WasmSignature
  FunctionIndex :: "u32 option"
  TableIndex :: "u32 option"
  getGlobalType :: WasmGlobalType
  GlobalIndex :: "u32 option"
  InitValue :: nat
  VirtualAddress :: nat

definition isUndefined :: "Symbol \<Rightarrow> bool" where
  "isUndefined s = (SymbolKind s = UndefinedFunctionKind \<or> SymbolKind s = UndefinedDataKind
     \<or> SymbolKind s = UndefinedGlobalKind)"



definition isFunctionSymbol :: "Symbol \<Rightarrow> bool" where
  "isFunctionSymbol s = (SymbolKind s = DefinedFunctionKind \<or> SymbolKind s = UndefinedFunctionKind)"

definition isGlobalSymbol :: "Symbol \<Rightarrow> bool" where
  "isGlobalSymbol s = (SymbolKind s = DefinedGlobalKind \<or> SymbolKind s = UndefinedGlobalKind)"

definition isDataSymbol :: "Symbol \<Rightarrow> bool" where
  "isDataSymbol s = (SymbolKind s = DefinedDataKind \<or> SymbolKind s = UndefinedDataKind)"

text \<open>
  What stops the link outright instead of going through the error handler: a failed
  \<^verbatim>\<open>cast\<close> or \<^verbatim>\<open>assert\<close>, a null or out-of-range access, an uncaught C++ exception.
\<close>

datatype abort =
    BadCast | AssertionFailure | NullDereference | OutOfRange | DivisionByZero
  | RuntimeError string

text \<open>The messages handed to \<^verbatim>\<open>error()\<close>, the recoverable diagnostic of the error handler.\<close>

datatype message =
    TypeNotFound WasmSignature
  | InvalidInitFuncSignature symref
  | StackSizeNotAligned
  | InitialMemoryNotAligned
  | InitialMemoryTooSmall nat
  | MaximumMemoryNotAligned
  | MaximumMemoryTooSmall nat

text \<open>\<^verbatim>\<open>WasmLimits\<close>: the maximum is \<open>None\<close> where the source leaves the field unset.\<close>

datatype WasmLimits = WasmLimits (Flags: nat) (Initial: nat) (Maximum: "nat option")

datatype ImportDesc =
    FunctionImport nat
  | GlobalImport WasmGlobalType
  | MemoryImport WasmLimits
  | TableImport WasmLimits

datatype WasmImport = WasmImport (ImportModule: string) (ImportField: string) (Desc: ImportDesc)

datatype ExternalKind =
  WASM_EXTERNAL_FUNCTION | WASM_EXTERNAL_TABLE | WASM_EXTERNAL_MEMORY | WASM_EXTERNAL_GLOBAL

datatype WasmExport = WasmExport (ExportName: string) (ExportKind: ExternalKind) (Index: u32)

datatype RelocType =
    R_WEBASSEMBLY_TABLE_INDEX_I32 | R_WEBASSEMBLY_TABLE_INDEX_SLEB
  | R_WEBASSEMBLY_TYPE_INDEX_LEB | R_WEBASSEMBLY_OTHER

datatype WasmRelocation = WasmRelocation (RelocKind: RelocType) (RelocIndex: nat)

record InputChunk =
  Live :: bool
  Relocations :: "WasmRelocation list"

record InputFunction = InputChunk +
  Signature :: WasmSignature

record InputSegment = InputChunk +
  SegmentName :: string
  SegmentAlignment :: nat
  SegmentSize :: nat
  OutputSegmentOffset :: nat

record OutputSegment =
  Name :: string
  SegmentIndex :: nat
  Alignment :: nat
  Size :: nat
  StartVA :: nat
  InputSegments :: "InputSegment list"

text \<open>
  An object file, as far as the writer reads and updates it: the signatures of its type
  section with the parallel vectors \<^verbatim>\<open>TypeIsUsed\<close> and \<^verbatim>\<open>TypeMap\<close>, its chunks
  (\<^verbatim>\<open>Functions\<close>, \<^verbatim>\<open>Segments\<close>, \<^verbatim>\<open>CustomSections\<close>), its symbol vector (the argument of \<^verbatim>\<open>getFunctionSymbol\<close> indexes it), the init functions of
  its linking data as pairs of symbol index and priority, and the dispatcher metadata.
\<close>

record ObjFile =
  ObjTypes :: "WasmSignature list"
  TypeIsUsed :: "bool list"
  TypeMap :: "nat list"
  Functions :: "InputFunction list"
  FileSegments :: "InputSegment list"
  CustomSections :: "InputChunk list"
  FileSymbols :: "symref list"
  LinkingInitFunctions :: "(nat \<times> u32) list"
  SnaxABI :: string
  SnaxActions :: "string list"
  SnaxNotify :: "string list"

datatype InputGlobal = InputGlobal (GlobalLive: bool)

datatype WasmInitEntry = WasmInitEntry (Sym: symref) (Priority: u32)

record Config =
  Relocatable :: bool
  ImportMemory :: bool
  ImportTable :: bool
  ExportTable :: bool
  ExportAll :: bool
  MergeDataSegments :: bool
  StackFirst :: bool
  ZStackSize :: nat
  GlobalBase :: nat
  InitialMemory :: nat
  MaxMemory :: nat

text \<open>
  The mutable state: the store of symbol objects (\<^verbatim>\<open>Symbol*\<close> is an address), the messages
  the error handler has collected, the members of \<^verbatim>\<open>Writer\<close>, and the four pointers of
  \<^verbatim>\<open>WasmSym\<close> the writer uses (\<open>None\<close> is the null pointer). A type index is the number
  \<^verbatim>\<open>Types.size()\<close> had when the signature was registered. In a symbol, \<^verbatim>\<open>InitValue\<close> stands
  for \<^verbatim>\<open>Global->Global.InitExpr.Value.Int32\<close> of the global behind it.
\<close>

record Writer =
  symbols :: "symref \<Rightarrow> Symbol"
  errors :: "message list"
  NumMemoryPages :: nat
  MaxMemoryPages :: nat
  Types :: "WasmSignature list"
  TypeIndices :: "WasmSignature \<rightharpoonup> nat"
  ImportedSymbols :: "symref list"
  NumImportedFunctions :: u32
  NumImportedGlobals :: u32
  Exports :: "WasmExport list"
  DefinedFakeGlobals :: "symref list"
  InputFunctions :: "InputFunction list"
  InputGlobals :: "InputGlobal list"
  IndirectFunctions :: "symref list"
  InitFunctions :: "WasmInitEntry list"
  abis :: "string list"
  Segments :: "OutputSegment list"
  StackPointer :: "symref option"
  DsoHandle :: "symref option"
  DataEnd :: "symref option"
  HeapBase :: "symref option"

definition error :: "message \<Rightarrow> Writer \<Rightarrow> Writer" where
  "error m w = w\<lparr>errors := errors w @ [m]\<rparr>"

section \<open>The wire encoders the writer calls\<close>

text \<open>
  Modelled from the spec: \<^verbatim>\<open>writeU8\<close>, \<^verbatim>\<open>writeUleb128\<close> (\<^verbatim>\<open>WriterUtils.h\<close>) and
  \<^verbatim>\<open>encodeSLEB128\<close> (LLVM's \<^verbatim>\<open>LEB128.h\<close>) are not part of the sources at hand. The spec
  names them as the ULEB128 and SLEB128 variable-length encodings of the WebAssembly binary
  format: seven bits per byte, low group first, the top bit of a byte set when another
  byte follows; for SLEB128 the last byte's bit 6 is the sign.
\<close>

definition writeU8 :: "u8 \<Rightarrow> u8 list" where
  "writeU8 b = [b]"

function writeUleb128 :: "nat \<Rightarrow> u8 list" where
  "writeUleb128 n =
     (if n div 128 = 0 then [of_nat (n mod 128)]
      else of_nat (n mod 128 + 128) # writeUleb128 (n div 128))"
  by pat_completeness auto
termination
  by (relation "measure id") auto

function encodeSLEB128 :: "int \<Rightarrow> u8 list" where
  "encodeSLEB128 v =
     (if (v div 128 = 0 \<and> v mod 128 < 64) \<or> (v div 128 = - 1 \<and> 64 \<le> v mod 128)
      then [of_int (v mod 128)]
      else of_int (v mod 128 + 128) # encodeSLEB128 (v div 128))"
  by pat_completeness auto
termination
proof (relation "measure (\<lambda>v. nat \<bar>v\<bar>)")
  show "wf (measure (\<lambda>v. nat \<bar>v\<bar>))" by simp
next
  fix v :: int
  assume a: "\<not> (v div 128 = 0 \<and> v mod 128 < 64 \<or> v div 128 = - 1 \<and> 64 \<le> v mod 128)"
  have "v \<noteq> 0" using a by auto
  moreover have "v \<noteq> - 1" using a by auto
  ultimately have "\<bar>v div 128\<bar> < \<bar>v\<bar>" by linarith
  then show "(v div 128, v) \<in> measure (\<lambda>v. nat \<bar>v\<bar>)" by simp
qed

declare writeUleb128.simps [simp del] encodeSLEB128.simps [simp del]

section \<open>The type table: \<^verbatim>\<open>registerType\<close>, \<^verbatim>\<open>lookupType\<close>\<close>

text \<open>
  \<^verbatim>\<open>lookupType\<close>: a signature that is not in \<^verbatim>\<open>TypeIndices\<close> is reported with
  \<^verbatim>\<open>error("type not found: ...")\<close> and the function returns 0.
\<close>

definition lookupType :: "WasmSignature \<Rightarrow> Writer \<Rightarrow> nat \<times> Writer" where
  "lookupType Sig w =
     (case TypeIndices w Sig of
        None \<Rightarrow> (0, error (TypeNotFound Sig) w)
      | Some i \<Rightarrow> (i, w))"

text \<open>
  \<^verbatim>\<open>registerType\<close>: \<^verbatim>\<open>TypeIndices.insert(make_pair(Sig, Types.size()))\<close> inserts only when
  the key is new; only then is the signature pushed onto \<^verbatim>\<open>Types\<close>. The result is the
  index the map holds for the signature.
\<close>

definition registerType :: "WasmSignature \<Rightarrow> Writer \<Rightarrow> nat \<times> Writer" where
  "registerType Sig w =
     (case TypeIndices w Sig of
        Some i \<Rightarrow> (i, w)
      | None \<Rightarrow>
          (length (Types w),
           w\<lparr>TypeIndices := (TypeIndices w)(Sig \<mapsto> length (Types w)),
             Types := Types w @ [Sig]\<rparr>))"






section \<open>Section builders that write type indices\<close>

text \<open>
  The serialisers of whole records (\<^verbatim>\<open>writeSig\<close>, \<^verbatim>\<open>writeImport\<close>, \<^verbatim>\<open>writeInitExpr\<close>) are
  declared in \<^verbatim>\<open>WriterUtils.h\<close>, outside the sources at hand; each builder takes the one it
  calls as a parameter. A builder returns the body of its section, or \<open>None\<close> when it returns
  before creating one.
\<close>

definition createTypeSection :: "(WasmSignature \<Rightarrow> u8 list) \<Rightarrow> Writer \<Rightarrow> u8 list" where
  "createTypeSection writeSig w =
     writeUleb128 (length (Types w)) @ concat (map writeSig (Types w))"

fun createFunctionSection_loop :: "InputFunction list \<Rightarrow> Writer \<Rightarrow> u8 list \<times> Writer" where
  "createFunctionSection_loop [] w = ([], w)"
| "createFunctionSection_loop (F # Fs) w =
     (case lookupType (Signature F) w of
        (i, w') \<Rightarrow>
          (case createFunctionSection_loop Fs w' of
             (bs, w'') \<Rightarrow> (writeUleb128 i @ bs, w'')))"

definition createFunctionSection :: "Writer \<Rightarrow> u8 list option \<times> Writer" where
  "createFunctionSection w =
     (if InputFunctions w = [] then (None, w)
      else (case createFunctionSection_loop (InputFunctions w) w of
              (bs, w') \<Rightarrow> (Some (writeUleb128 (length (InputFunctions w)) @ bs), w')))"

definition WASM_LIMITS_FLAG_HAS_MAX :: nat where
  "WASM_LIMITS_FLAG_HAS_MAX = 1"

definition kInitialTableOffset :: nat where
  "kInitialTableOffset = 1"

definition kFunctionTableName :: string where
  "kFunctionTableName = ''__indirect_function_table''"

fun createImportSection_loop ::
  "(WasmImport \<Rightarrow> u8 list) \<Rightarrow> symref list \<Rightarrow> Writer \<Rightarrow> abort + (u8 list \<times> Writer)" where
  "createImportSection_loop writeImport [] w = Inr ([], w)"
| "createImportSection_loop writeImport (S # Ss) w =
     (if isFunctionSymbol (symbols w S) then
        (case lookupType (getFunctionType (symbols w S)) w of
           (i, w') \<Rightarrow>
             (case createImportSection_loop writeImport Ss w' of
                Inl e \<Rightarrow> Inl e
              | Inr (bs, w'') \<Rightarrow>
                  Inr (writeImport (WasmImport ''env'' (getName (symbols w S)) (FunctionImport i)) @ bs,
                       w'')))
      else if isGlobalSymbol (symbols w S) then
        (case createImportSection_loop writeImport Ss w of
           Inl e \<Rightarrow> Inl e
         | Inr (bs, w'') \<Rightarrow>
             Inr (writeImport (WasmImport ''env'' (getName (symbols w S))
                                 (GlobalImport (getGlobalType (symbols w S)))) @ bs,
                  w''))
      else Inl BadCast)"

definition createImportSection ::
  "(WasmImport \<Rightarrow> u8 list) \<Rightarrow> Config \<Rightarrow> Writer \<Rightarrow> abort + (u8 list option \<times> Writer)" where
  "createImportSection writeImport cfg w =
     (let NumImports = length (ImportedSymbols w)
            + (if ImportMemory cfg then 1 else 0) + (if ImportTable cfg then 1 else 0)
      in if NumImports = 0 then Inr (None, w)
         else
           (case createImportSection_loop writeImport (ImportedSymbols w) w of
              Inl e \<Rightarrow> Inl e
            | Inr (bs, w') \<Rightarrow>
                Inr (Some
                  (writeUleb128 NumImports
                   @ (if ImportMemory cfg then
                        writeImport (WasmImport ''env'' ''memory''
                          (MemoryImport
                            (if MaxMemoryPages w \<noteq> 0
                             then WasmLimits WASM_LIMITS_FLAG_HAS_MAX (NumMemoryPages w)
                                    (Some (MaxMemoryPages w))
                             else WasmLimits 0 (NumMemoryPages w) None)))
                      else [])
                   @ (if ImportTable cfg then
                        (let TableSize = kInitialTableOffset + length (IndirectFunctions w)
                         in writeImport (WasmImport ''env'' kFunctionTableName
                              (TableImport (WasmLimits WASM_LIMITS_FLAG_HAS_MAX TableSize
                                 (Some TableSize)))))
                      else [])
                   @ bs), w')))"

section \<open>Initial state, invariants and well-formed inputs\<close>

text \<open>A freshly constructed \<^verbatim>\<open>Writer\<close>: empty vectors and maps, counters at zero.\<close>

definition new_Writer :: "(symref \<Rightarrow> Symbol) \<Rightarrow> Writer" where
  "new_Writer store =
     \<lparr>symbols = store, errors = [], NumMemoryPages = 0, MaxMemoryPages = 0, Types = [],
      TypeIndices = Map.empty, ImportedSymbols = [], NumImportedFunctions = 0,
      NumImportedGlobals = 0, Exports = [], DefinedFakeGlobals = [], InputFunctions = [],
      InputGlobals = [], IndirectFunctions = [], InitFunctions = [], abis = [], Segments = [],
      StackPointer = None, DsoHandle = None, DataEnd = None, HeapBase = None\<rparr>"

text \<open>
  The type table is consistent when \<^verbatim>\<open>TypeIndices\<close> maps exactly the signatures of
  \<^verbatim>\<open>Types\<close> to their positions. The empty table is, and \<^verbatim>\<open>registerType\<close> keeps it so.
\<close>

definition types_ok :: "Writer \<Rightarrow> bool" where
  "types_ok w =
     (\<forall>Sig i. TypeIndices w Sig = Some i \<longleftrightarrow> (i < length (Types w) \<and> Types w ! i = Sig))"



section \<open>Concrete inputs\<close>

definition example_symbol :: "string \<Rightarrow> Kind \<Rightarrow> WasmSignature \<Rightarrow> Symbol" where
  "example_symbol n k sig =
     \<lparr>getName = n, SymbolKind = k, isLocal = False, isWeak = False, isHidden = False,
      isLive = True, IsUsedInRegularObj = True, getFunctionType = sig, FunctionIndex = None,
      TableIndex = None, getGlobalType = WasmGlobalType I32 False, GlobalIndex = None,
      InitValue = 0, VirtualAddress = 0\<rparr>"

text \<open>
  One imported function \<^verbatim>\<open>puts : (i32) -> i32\<close> and three defined functions, two of them
  with the same signature; nothing registered yet.
\<close>

definition example_types_writer :: Writer where
  "example_types_writer =
     (new_Writer (\<lambda>_. example_symbol ''puts'' UndefinedFunctionKind (WasmSignature [I32] I32)))
       \<lparr>ImportedSymbols := [0],
        InputFunctions := [\<lparr>Live = True, Relocations = [], Signature = WasmSignature [] NORESULT\<rparr>,
                           \<lparr>Live = True, Relocations = [], Signature = WasmSignature [I32] I32\<rparr>,
                           \<lparr>Live = True, Relocations = [], Signature = WasmSignature [] NORESULT\<rparr>]\<rparr>"


text \<open>
  The same writer after two signatures were registered: \<^verbatim>\<open>(i64) -> void\<close> at index 0 and
  \<^verbatim>\<open>(i32) -> i32\<close> at index 1. The signature \<^verbatim>\<open>() -> void\<close> of two of its functions is not in
  the table.
\<close>

definition example_lookup_writer :: Writer where
  "example_lookup_writer =
     snd (registerType (WasmSignature [I32] I32)
            (snd (registerType (WasmSignature [I64] NORESULT) example_types_writer)))"

section \<open>The dispatcher: \<^verbatim>\<open>createDispatchFunction\<close>\<close>

definition OPCODE_CALL :: u8 where "OPCODE_CALL = 0x10"
definition OPCODE_IF :: u8 where "OPCODE_IF = 0x4"
definition OPCODE_ELSE :: u8 where "OPCODE_ELSE = 0x5"
definition OPCODE_END :: u8 where "OPCODE_END = 0xb"
definition OPCODE_GET_LOCAL :: u8 where "OPCODE_GET_LOCAL = 0x20"
definition OPCODE_I64_EQ :: u8 where "OPCODE_I64_EQ = 0x51"
definition OPCODE_I64_NE :: u8 where "OPCODE_I64_NE = 0x52"
definition OPCODE_I32_CONST :: u8 where "OPCODE_I32_CONST = 0x41"
definition OPCODE_I64_CONST :: u8 where "OPCODE_I64_CONST = 0x42"

definition SNAX_COMPILER_ERROR_BASE :: nat where
  "SNAX_COMPILER_ERROR_BASE = 8000000000000000000"

definition SNAX_ERROR_NO_ACTION :: nat where
  "SNAX_ERROR_NO_ACTION = SNAX_COMPILER_ERROR_BASE"

definition SNAX_ERROR_ONERROR :: nat where
  "SNAX_ERROR_ONERROR = SNAX_COMPILER_ERROR_BASE + 1"

text \<open>
  \<^verbatim>\<open>std::string::find(":")\<close>: the position of the first colon, \<open>None\<close> for \<^verbatim>\<open>npos\<close>.
\<close>

fun find_colon :: "string \<Rightarrow> nat option" where
  "find_colon [] = None"
| "find_colon (c # cs) =
     (if c = CHR '':'' then Some 0
      else (case find_colon cs of None \<Rightarrow> None | Some p \<Rightarrow> Some (Suc p)))"

text \<open>
  \<^verbatim>\<open>str.substr(0, str.find(":"))\<close>: the text before the first colon, the whole string when
  there is none (a count of \<^verbatim>\<open>npos\<close> takes everything).
\<close>

definition before_colon :: "string \<Rightarrow> string" where
  "before_colon str = (case find_colon str of None \<Rightarrow> str | Some p \<Rightarrow> take p str)"

text \<open>
  \<^verbatim>\<open>str.substr(str.find(":") + k)\<close> for \<open>k\<close> = 1 or 2. \<^verbatim>\<open>npos\<close> is the largest \<^verbatim>\<open>size_t\<close>, so
  \<^verbatim>\<open>npos + k\<close> wraps to \<open>k - 1\<close>. \<^verbatim>\<open>substr\<close> throws \<^verbatim>\<open>std::out_of_range\<close> when the position
  is past the end of the string; nothing in the writer catches it.
\<close>

definition after_colon :: "nat \<Rightarrow> string \<Rightarrow> abort + string" where
  "after_colon k str =
     (let pos = (case find_colon str of None \<Rightarrow> k - 1 | Some p \<Rightarrow> p + k)
      in if length str < pos then Inl OutOfRange else Inr (drop pos str))"

text \<open>
  The lambda \<^verbatim>\<open>create_if\<close>. Two things come from outside the sources at hand and are
  parameters: \<open>name\<close> is \<^verbatim>\<open>snax::cdt::string_to_name\<close>, and \<open>findIndex n\<close> is what
  \<^verbatim>\<open>((FunctionSymbol*)Symtab->find(n))->getFunctionIndex()\<close> reads, \<open>None\<close> when \<^verbatim>\<open>find\<close>
  returns the null pointer. The source dereferences the result of \<^verbatim>\<open>find\<close> unchecked; the
  index is a \<^verbatim>\<open>uint32_t\<close> and is compared with \<^verbatim>\<open>index >= 0\<close>. The result is the bytes
  appended to the stream and the new value of \<^verbatim>\<open>need_else\<close>.
\<close>

definition create_if ::
  "(string \<Rightarrow> u64) \<Rightarrow> (string \<Rightarrow> u32 option) \<Rightarrow> string \<Rightarrow> bool \<Rightarrow> abort + (u8 list \<times> bool)" where
  "create_if name findIndex str need_else =
     (let nm = name (before_colon str) in
      case after_colon 1 str of
        Inl e \<Rightarrow> Inl e
      | Inr target \<Rightarrow>
         (case findIndex target of
            None \<Rightarrow> Inl NullDereference
          | Some index \<Rightarrow>
              if 0 \<le> index then
                Inr ((if need_else then writeU8 OPCODE_ELSE else [])
                     @ writeU8 OPCODE_I64_CONST @ encodeSLEB128 (sint nm)
                     @ writeU8 OPCODE_GET_LOCAL @ writeUleb128 2
                     @ writeU8 OPCODE_I64_EQ
                     @ writeU8 OPCODE_IF @ writeU8 0x40
                     @ writeU8 OPCODE_GET_LOCAL @ writeUleb128 0
                     @ writeU8 OPCODE_GET_LOCAL @ writeUleb128 1
                     @ writeU8 OPCODE_CALL
                     @ writeUleb128 (unat index), True)
              else Inl (RuntimeError ''wasm_ld internal error function not found'')))"

text \<open>A run of \<^verbatim>\<open>create_if\<close> over a vector of entries, sharing the stream and \<^verbatim>\<open>need_else\<close>.\<close>

fun create_ifs ::
  "(string \<Rightarrow> u64) \<Rightarrow> (string \<Rightarrow> u32 option) \<Rightarrow> string list \<Rightarrow> bool \<Rightarrow> abort + (u8 list \<times> bool)" where
  "create_ifs name findIndex [] need_else = Inr ([], need_else)"
| "create_ifs name findIndex (str # strs) need_else =
     (case create_if name findIndex str need_else of
        Inl e \<Rightarrow> Inl e
      | Inr (bs, ne) \<Rightarrow>
          (case create_ifs name findIndex strs ne of
             Inl e \<Rightarrow> Inl e
           | Inr (bs', ne') \<Rightarrow> Inr (bs @ bs', ne')))"

text \<open>
  The call of \<^verbatim>\<open>post_dispatch(receiver, code, action)\<close> in the trailing \<^verbatim>\<open>else\<close>, emitted only
  when the symbol exists.
\<close>

definition post_dispatch_call :: "(string \<Rightarrow> u32 option) \<Rightarrow> u8 list" where
  "post_dispatch_call findIndex =
     (case findIndex ''post_dispatch'' of
        None \<Rightarrow> []
      | Some post_idx \<Rightarrow>
          writeU8 OPCODE_ELSE
          @ writeU8 OPCODE_GET_LOCAL @ writeUleb128 0
          @ writeU8 OPCODE_GET_LOCAL @ writeUleb128 1
          @ writeU8 OPCODE_GET_LOCAL @ writeUleb128 2
          @ writeU8 OPCODE_CALL @ writeUleb128 (unat post_idx))"

text \<open>
  \<^verbatim>\<open>create_action_dispatch\<close>. The loop state is the stream, the \<^verbatim>\<open>std::set\<close>
  \<^verbatim>\<open>has_dispatched\<close>, \<^verbatim>\<open>need_else\<close> and \<^verbatim>\<open>act_cnt\<close>.
\<close>

fun action_loop ::
  "(string \<Rightarrow> u64) \<Rightarrow> (string \<Rightarrow> u32 option) \<Rightarrow> string list
     \<Rightarrow> u8 list \<times> string set \<times> bool \<times> nat \<Rightarrow> abort + (u8 list \<times> string set \<times> bool \<times> nat)" where
  "action_loop name findIndex [] st = Inr st"
| "action_loop name findIndex (act # acts) (OS, has_dispatched, need_else, act_cnt) =
     (if act \<notin> has_dispatched then
        (case create_if name findIndex act need_else of
           Inl e \<Rightarrow> Inl e
         | Inr (bs, ne) \<Rightarrow>
             action_loop name findIndex acts (OS @ bs, insert act has_dispatched, ne, act_cnt + 1))
      else action_loop name findIndex acts (OS, has_dispatched, need_else, act_cnt))"

fun action_files ::
  "(string \<Rightarrow> u64) \<Rightarrow> (string \<Rightarrow> u32 option) \<Rightarrow> ObjFile list
     \<Rightarrow> u8 list \<times> string set \<times> bool \<times> nat \<Rightarrow> abort + (u8 list \<times> string set \<times> bool \<times> nat)" where
  "action_files name findIndex [] st = Inr st"
| "action_files name findIndex (File # Files) st =
     (case action_loop name findIndex (SnaxActions File) st of
        Inl e \<Rightarrow> Inl e
      | Inr st' \<Rightarrow> action_files name findIndex Files st')"

definition create_action_dispatch ::
  "(string \<Rightarrow> u64) \<Rightarrow> (string \<Rightarrow> u32 option) \<Rightarrow> u32 \<Rightarrow> ObjFile list \<Rightarrow> abort + u8 list" where
  "create_action_dispatch name findIndex assert_idx ObjectFiles =
     (case action_files name findIndex ObjectFiles ([], {}, False, 0) of
        Inl e \<Rightarrow> Inl e
      | Inr (OS, has_dispatched, need_else, act_cnt) \<Rightarrow>
          Inr (OS
               @ (if act_cnt > 0 then writeU8 OPCODE_ELSE else [])
               @ writeU8 OPCODE_GET_LOCAL @ writeUleb128 0
               @ writeU8 OPCODE_I64_CONST @ encodeSLEB128 (sint (name ''snax''))
               @ writeU8 OPCODE_I64_NE
               @ writeU8 OPCODE_IF @ writeU8 0x40
               @ writeU8 OPCODE_I32_CONST @ writeUleb128 0
               @ writeU8 OPCODE_I64_CONST @ writeUleb128 SNAX_ERROR_NO_ACTION
               @ writeU8 OPCODE_CALL @ writeUleb128 (unat assert_idx)
               @ post_dispatch_call findIndex
               @ writeU8 OPCODE_END
               @ concat (replicate act_cnt (writeU8 OPCODE_END))))"

text \<open>
  \<^verbatim>\<open>create_notify_dispatch\<close>. \<^verbatim>\<open>notify_handlers\<close> is a \<^verbatim>\<open>std::map\<close> from the code name to the
  vector of its entries: an association list kept in ascending key order, which is the
  order the map is iterated in. \<^verbatim>\<open>notify_handlers[code_name].push_back(rest)\<close>:
\<close>

fun handlers_push ::
  "string \<Rightarrow> string \<Rightarrow> (string \<times> string list) list \<Rightarrow> (string \<times> string list) list" where
  "handlers_push k v [] = [(k, [v])]"
| "handlers_push k v ((k', vs) # m) =
     (if k = k' then (k', vs @ [v]) # m
      else if k < k' then (k, [v]) # (k', vs) # m
      else (k', vs) # handlers_push k v m)"

text \<open>
  The registration loop: a string not seen before is counted, split at its first colon
  into the code name and the text two characters further on, and filed under the code name.
\<close>

fun notify_loop ::
  "string list \<Rightarrow> nat \<times> string set \<times> (string \<times> string list) list
     \<Rightarrow> abort + (nat \<times> string set \<times> (string \<times> string list) list)" where
  "notify_loop [] st = Inr st"
| "notify_loop (notif # notifs) (not_cnt, has_dispatched, notify_handlers) =
     (if notif \<notin> has_dispatched then
        (case after_colon 2 notif of
           Inl e \<Rightarrow> Inl e
         | Inr rest \<Rightarrow>
             notify_loop notifs
               (not_cnt + 1, insert notif has_dispatched,
                handlers_push (before_colon notif) rest notify_handlers))
      else notify_loop notifs (not_cnt, has_dispatched, notify_handlers))"

fun notify_files ::
  "ObjFile list \<Rightarrow> nat \<times> string set \<times> (string \<times> string list) list
     \<Rightarrow> abort + (nat \<times> string set \<times> (string \<times> string list) list)" where
  "notify_files [] st = Inr st"
| "notify_files (File # Files) st =
     (case notify_loop (SnaxNotify File) st of
        Inl e \<Rightarrow> Inl e
      | Inr st' \<Rightarrow> notify_files Files st')"

text \<open>
  \<^verbatim>\<open>has_onerror_handler\<close>: some entry filed under \<^verbatim>\<open>"snax"\<close> is equal to the string
  \<^verbatim>\<open>"onerror"\<close>.
\<close>

definition has_onerror_handler :: "nat \<Rightarrow> (string \<times> string list) list \<Rightarrow> bool" where
  "has_onerror_handler not_cnt notify_handlers =
     (not_cnt > 0 \<and>
      list_ex (\<lambda>notif0. fst notif0 = ''snax'' \<and> list_ex (\<lambda>notif1. notif1 = ''onerror'') (snd notif0))
        notify_handlers)"

text \<open>The synthesised \<^verbatim>\<open>snax_assert_code(false, SNAX_ERROR_ONERROR)\<close> with its two guards.\<close>

definition onerror_assert :: "(string \<Rightarrow> u64) \<Rightarrow> u32 \<Rightarrow> u8 list" where
  "onerror_assert name assert_idx =
     writeU8 OPCODE_I64_CONST @ encodeSLEB128 (sint (name ''snax''))
     @ writeU8 OPCODE_GET_LOCAL @ writeUleb128 1
     @ writeU8 OPCODE_I64_EQ
     @ writeU8 OPCODE_IF @ writeU8 0x40
     @ writeU8 OPCODE_I64_CONST @ encodeSLEB128 (sint (name ''onerror''))
     @ writeU8 OPCODE_GET_LOCAL @ writeUleb128 2
     @ writeU8 OPCODE_I64_EQ
     @ writeU8 OPCODE_IF @ writeU8 0x40
     @ writeU8 OPCODE_I32_CONST @ writeUleb128 0
     @ writeU8 OPCODE_I64_CONST @ writeUleb128 SNAX_ERROR_ONERROR
     @ writeU8 OPCODE_CALL @ writeUleb128 (unat assert_idx)
     @ writeU8 OPCODE_END
     @ writeU8 OPCODE_END"

text \<open>The loop over the codes of \<^verbatim>\<open>notify_handlers\<close>; the second component is \<^verbatim>\<open>notify0_need_else\<close>.\<close>

fun notify_codes ::
  "(string \<Rightarrow> u64) \<Rightarrow> (string \<Rightarrow> u32 option) \<Rightarrow> (string \<times> string list) list \<Rightarrow> bool
     \<Rightarrow> abort + u8 list" where
  "notify_codes name findIndex [] notify0_need_else = Inr []"
| "notify_codes name findIndex (notif0 # rest) notify0_need_else =
     (if fst notif0 = ''*'' then notify_codes name findIndex rest notify0_need_else
      else
        (case create_ifs name findIndex (snd notif0) False of
           Inl e \<Rightarrow> Inl e
         | Inr (bs, ne) \<Rightarrow>
             (case notify_codes name findIndex rest True of
                Inl e \<Rightarrow> Inl e
              | Inr bs' \<Rightarrow>
                  Inr ((if notify0_need_else then writeU8 OPCODE_ELSE else [])
                       @ writeU8 OPCODE_I64_CONST @ encodeSLEB128 (sint (name (fst notif0)))
                       @ writeU8 OPCODE_GET_LOCAL @ writeUleb128 1
                       @ writeU8 OPCODE_I64_EQ
                       @ writeU8 OPCODE_IF @ writeU8 0x40
                       @ bs @ bs'))))"

text \<open>\<^verbatim>\<open>notify_handlers["*"]\<close>: the vector filed under the key, empty when there is none.\<close>

definition handlers_at :: "string \<Rightarrow> (string \<times> string list) list \<Rightarrow> string list" where
  "handlers_at k notify_handlers = (case map_of notify_handlers k of None \<Rightarrow> [] | Some vs \<Rightarrow> vs)"

definition create_notify_dispatch ::
  "(string \<Rightarrow> u64) \<Rightarrow> (string \<Rightarrow> u32 option) \<Rightarrow> u32 \<Rightarrow> ObjFile list \<Rightarrow> abort + u8 list" where
  "create_notify_dispatch name findIndex assert_idx ObjectFiles =
     (case notify_files ObjectFiles (0, {}, []) of
        Inl e \<Rightarrow> Inl e
      | Inr (not_cnt, has_dispatched, notify_handlers) \<Rightarrow>
          (case (if not_cnt > 0 then notify_codes name findIndex notify_handlers False else Inr []) of
             Inl e \<Rightarrow> Inl e
           | Inr codes \<Rightarrow>
               (case create_ifs name findIndex (handlers_at ''*'' notify_handlers) False of
                  Inl e \<Rightarrow> Inl e
                | Inr (wildcard, ne) \<Rightarrow>
                    Inr (writeU8 OPCODE_GET_LOCAL @ writeUleb128 0
                         @ writeU8 OPCODE_I64_CONST @ encodeSLEB128 (sint (name ''snax''))
                         @ writeU8 OPCODE_I64_NE
                         @ writeU8 OPCODE_IF @ writeU8 0x40
                         @ (if \<not> has_onerror_handler not_cnt notify_handlers
                            then onerror_assert name assert_idx else [])
                         @ (if not_cnt > 0
                            then codes @ writeU8 OPCODE_END @ writeU8 OPCODE_ELSE else [])
                         @ wildcard
                         @ post_dispatch_call findIndex
                         @ concat (replicate not_cnt (writeU8 OPCODE_END))))))"

text \<open>
  \<^verbatim>\<open>createDispatchFunction\<close>: the body content, then the body with its length in front. The
  result is the byte string handed to \<^verbatim>\<open>setBody\<close> of the synthetic entry function.
\<close>

definition dispatch_body_content ::
  "(string \<Rightarrow> u64) \<Rightarrow> (string \<Rightarrow> u32 option) \<Rightarrow> ObjFile list \<Rightarrow> abort + u8 list" where
  "dispatch_body_content name findIndex ObjectFiles =
     (case findIndex ''snax_assert_code'' of
        None \<Rightarrow> Inl NullDereference
      | Some assert_idx \<Rightarrow>
         (case create_action_dispatch name findIndex assert_idx ObjectFiles of
            Inl e \<Rightarrow> Inl e
          | Inr actions \<Rightarrow>
             (case create_notify_dispatch name findIndex assert_idx ObjectFiles of
                Inl e \<Rightarrow> Inl e
              | Inr notifications \<Rightarrow>
                  Inr (writeUleb128 0
                       @ (case findIndex ''__wasm_call_ctors'' of
                            None \<Rightarrow> []
                          | Some ctors_idx \<Rightarrow>
                              if ctors_idx \<noteq> 0
                              then writeU8 OPCODE_CALL @ writeUleb128 (unat ctors_idx) else [])
                       @ (case findIndex ''pre_dispatch'' of
                            None \<Rightarrow> []
                          | Some pre_idx \<Rightarrow>
                              writeU8 OPCODE_GET_LOCAL @ writeUleb128 0
                              @ writeU8 OPCODE_GET_LOCAL @ writeUleb128 1
                              @ writeU8 OPCODE_GET_LOCAL @ writeUleb128 2
                              @ writeU8 OPCODE_CALL @ writeUleb128 (unat pre_idx)
                              @ writeU8 OPCODE_IF @ writeU8 0x40)
                       @ writeU8 OPCODE_GET_LOCAL @ writeUleb128 0
                       @ writeU8 OPCODE_GET_LOCAL @ writeUleb128 1
                       @ writeU8 OPCODE_I64_EQ
                       @ writeU8 OPCODE_IF @ writeU8 0x40
                       @ actions
                       @ writeU8 OPCODE_ELSE
                       @ notifications
                       @ writeU8 OPCODE_END
                       @ (case findIndex ''__cxa_finalize'' of
                            None \<Rightarrow> []
                          | Some dtors_idx \<Rightarrow>
                              if dtors_idx \<noteq> 0
                              then writeU8 OPCODE_I32_CONST @ writeUleb128 0
                                   @ writeU8 OPCODE_CALL @ writeUleb128 (unat dtors_idx)
                              else [])
                       @ (if findIndex ''pre_dispatch'' \<noteq> None then writeU8 OPCODE_END else [])
                       @ writeU8 OPCODE_END))))"

definition createDispatchFunction ::
  "(string \<Rightarrow> u64) \<Rightarrow> (string \<Rightarrow> u32 option) \<Rightarrow> ObjFile list \<Rightarrow> abort + u8 list" where
  "createDispatchFunction name findIndex ObjectFiles =
     (case dispatch_body_content name findIndex ObjectFiles of
        Inl e \<Rightarrow> Inl e
      | Inr BodyContent \<Rightarrow> Inr (writeUleb128 (length BodyContent) @ BodyContent))"

text \<open>
  The registration loop of \<^verbatim>\<open>create_notify_dispatch\<close> run over entries that are all new:
  what \<^verbatim>\<open>notify_handlers\<close> becomes.
\<close>

fun register_entries ::
  "string list \<Rightarrow> (string \<times> string list) list \<Rightarrow> abort + (string \<times> string list) list" where
  "register_entries [] hs = Inr hs"
| "register_entries (notif # notifs) hs =
     (case after_colon 2 notif of
        Inl e \<Rightarrow> Inl e
      | Inr rest \<Rightarrow> register_entries notifs (handlers_push (before_colon notif) rest hs))"

text \<open>
  Modelled from the spec: \<^verbatim>\<open>snax::cdt::string_to_name\<close> is declared in \<^verbatim>\<open>snax/utils.hpp\<close>,
  outside the sources at hand; the spec calls it the platform's 13-character base-32
  encoding of a string into a 64-bit integer. The platform's alphabet is \<^verbatim>\<open>.12345a-z\<close>:
  twelve 5-bit symbols from the top bit down and a thirteenth of 4 bits; the C string ends
  at its first NUL. The dispatcher takes the encoding as a parameter; this definition is the
  one the concrete inputs below use.
\<close>

definition char_to_symbol :: "char \<Rightarrow> u64" where
  "char_to_symbol c =
     (if CHR ''a'' \<le> c \<and> c \<le> CHR ''z'' then of_nat (of_char c - of_char CHR ''a'' + 6)
      else if CHR ''1'' \<le> c \<and> c \<le> CHR ''5'' then of_nat (of_char c - of_char CHR ''1'' + 1)
      else 0)"

fun string_to_name_loop :: "nat \<Rightarrow> string \<Rightarrow> u64 \<Rightarrow> u64" where
  "string_to_name_loop i [] n = n"
| "string_to_name_loop i (c # cs) n =
     (if i < 12
      then string_to_name_loop (i + 1) cs (n OR push_bit (64 - 5 * (i + 1)) (char_to_symbol c AND 0x1f))
      else n OR (char_to_symbol c AND 0x0f))"

definition string_to_name :: "string \<Rightarrow> u64" where
  "string_to_name str = string_to_name_loop 0 (takeWhile (\<lambda>c. c \<noteq> CHR 0x00) str) 0"

text \<open>
  The entries of a list that are neither in \<open>seen\<close> nor earlier in the list, in order: the
  entries for which \<^verbatim>\<open>has_dispatched.insert(...).second\<close> holds when the loops start with
  \<^verbatim>\<open>has_dispatched\<close> = \<open>seen\<close>.
\<close>

fun fresh_entries :: "string set \<Rightarrow> string list \<Rightarrow> string list" where
  "fresh_entries seen [] = []"
| "fresh_entries seen (x # xs) =
     (if x \<in> seen then fresh_entries seen xs else x # fresh_entries (insert x seen) xs)"

definition first_occurrences :: "string list \<Rightarrow> string list" where
  "first_occurrences xs = fresh_entries {} xs"

definition example_file :: "string list \<Rightarrow> string list \<Rightarrow> ObjFile" where
  "example_file acts nots =
     \<lparr>ObjTypes = [], TypeIsUsed = [], TypeMap = [], Functions = [], FileSegments = [],
      CustomSections = [], FileSymbols = [], LinkingInitFunctions = [], SnaxABI = [],
      SnaxActions = acts, SnaxNotify = nots\<rparr>"

definition example_find :: "string \<Rightarrow> u32 option" where
  "example_find =
     map_of [(''snax_assert_code'', 7), (''handle_err'', 9), (''on_transfer'', 1), (''on_issue'', 2)]"

section \<open>Init functions: \<^verbatim>\<open>calculateInitFunctions\<close>, \<^verbatim>\<open>createCtorFunction\<close>\<close>

text \<open>
  Modelled from the spec: \<^verbatim>\<open>ObjFile::getFunctionSymbol\<close> and
  \<^verbatim>\<open>FunctionSymbol::getFunctionIndex\<close> are declared outside the sources at hand. The first is
  \<^verbatim>\<open>cast<FunctionSymbol>(Symbols[Index])\<close> on the file's symbol vector; the second returns
  the index slot of the symbol, which the planner must have filled.
\<close>

definition getFunctionSymbol :: "Writer \<Rightarrow> ObjFile \<Rightarrow> nat \<Rightarrow> abort + symref" where
  "getFunctionSymbol w File i =
     (if length (FileSymbols File) \<le> i then Inl OutOfRange
      else if isFunctionSymbol (symbols w (FileSymbols File ! i)) then Inr (FileSymbols File ! i)
      else Inl BadCast)"

definition getFunctionIndex :: "Symbol \<Rightarrow> abort + u32" where
  "getFunctionIndex s = (case FunctionIndex s of None \<Rightarrow> Inl AssertionFailure | Some i \<Rightarrow> Inr i)"

text \<open>
  The loop over the init functions of one file's linking data: a signature other than
  \<^verbatim>\<open>WasmSignature{{}, WASM_TYPE_NORESULT}\<close> is reported with \<^verbatim>\<open>error()\<close>, and the entry is
  appended to \<^verbatim>\<open>InitFunctions\<close> either way.
\<close>

fun calculateInitFunctions_file :: "ObjFile \<Rightarrow> (nat \<times> u32) list \<Rightarrow> Writer \<Rightarrow> abort + Writer" where
  "calculateInitFunctions_file File [] w = Inr w"
| "calculateInitFunctions_file File (F # Fs) w =
     (case getFunctionSymbol w File (fst F) of
        Inl e \<Rightarrow> Inl e
      | Inr S \<Rightarrow>
          calculateInitFunctions_file File Fs
            ((if getFunctionType (symbols w S) \<noteq> WasmSignature [] NORESULT
              then error (InvalidInitFuncSignature S) w else w)
               \<lparr>InitFunctions := InitFunctions w @ [WasmInitEntry S (snd F)]\<rparr>))"

fun calculateInitFunctions_files :: "ObjFile list \<Rightarrow> Writer \<Rightarrow> abort + Writer" where
  "calculateInitFunctions_files [] w = Inr w"
| "calculateInitFunctions_files (File # Files) w =
     (case calculateInitFunctions_file File (LinkingInitFunctions File) w of
        Inl e \<Rightarrow> Inl e
      | Inr w' \<Rightarrow> calculateInitFunctions_files Files w')"

text \<open>
  \<^verbatim>\<open>std::stable_sort\<close> with the comparison \<^verbatim>\<open>L.Priority < R.Priority\<close> is the library's
  stable insertion sort on the key \<^verbatim>\<open>Priority\<close>.
\<close>

definition calculateInitFunctions :: "ObjFile list \<Rightarrow> Writer \<Rightarrow> abort + Writer" where
  "calculateInitFunctions ObjectFiles w =
     (case calculateInitFunctions_files ObjectFiles w of
        Inl e \<Rightarrow> Inl e
      | Inr w' \<Rightarrow> Inr (w'\<lparr>InitFunctions := sort_key Priority (InitFunctions w')\<rparr>))"

fun createCtorFunction_calls :: "Writer \<Rightarrow> WasmInitEntry list \<Rightarrow> abort + u8 list" where
  "createCtorFunction_calls w [] = Inr []"
| "createCtorFunction_calls w (F # Fs) =
     (case getFunctionIndex (symbols w (Sym F)) of
        Inl e \<Rightarrow> Inl e
      | Inr i \<Rightarrow>
          (case createCtorFunction_calls w Fs of
             Inl e \<Rightarrow> Inl e
           | Inr bs \<Rightarrow> Inr (writeU8 OPCODE_CALL @ writeUleb128 (unat i) @ bs)))"

text \<open>The result is the byte string handed to \<^verbatim>\<open>setBody\<close> of \<^verbatim>\<open>__wasm_call_ctors\<close>.\<close>

definition createCtorFunction :: "Writer \<Rightarrow> abort + u8 list" where
  "createCtorFunction w =
     (case createCtorFunction_calls w (InitFunctions w) of
        Inl e \<Rightarrow> Inl e
      | Inr calls \<Rightarrow>
          (let BodyContent = writeUleb128 0 @ calls @ writeU8 OPCODE_END
           in Inr (writeUleb128 (length BodyContent) @ BodyContent)))"

text \<open>
  The init entries of the object files in the order the loops meet them, for files whose
  entries all resolve; and the test the source applies to the signature of an entry.
\<close>

definition init_entries :: "ObjFile list \<Rightarrow> WasmInitEntry list" where
  "init_entries Files =
     concat (map (\<lambda>File. map (\<lambda>F. WasmInitEntry (FileSymbols File ! fst F) (snd F))
                           (LinkingInitFunctions File)) Files)"

definition init_entries_resolve :: "Writer \<Rightarrow> ObjFile list \<Rightarrow> bool" where
  "init_entries_resolve w Files =
     (\<forall>File \<in> set Files. \<forall>F \<in> set (LinkingInitFunctions File).
        fst F < length (FileSymbols File) \<and> isFunctionSymbol (symbols w (FileSymbols File ! fst F)))"

definition invalid_init_signature :: "Writer \<Rightarrow> WasmInitEntry \<Rightarrow> bool" where
  "invalid_init_signature w F = (getFunctionType (symbols w (Sym F)) \<noteq> WasmSignature [] NORESULT)"

text \<open>
  Three constructors in two object files: \<^verbatim>\<open>ctor_a\<close> (priority 65535) and \<^verbatim>\<open>ctor_b\<close>
  (priority 100, with a parameter, so of the wrong signature) in the first, \<^verbatim>\<open>ctor_c\<close>
  (priority 100) in the second; function indices 3, 4 and 5.
\<close>

definition example_init_store :: "symref \<Rightarrow> Symbol" where
  "example_init_store r =
     (if r = 0 then (example_symbol ''ctor_a'' DefinedFunctionKind (WasmSignature [] NORESULT))
                      \<lparr>FunctionIndex := Some 3\<rparr>
      else if r = 1 then (example_symbol ''ctor_b'' DefinedFunctionKind (WasmSignature [I32] NORESULT))
                      \<lparr>FunctionIndex := Some 4\<rparr>
      else (example_symbol ''ctor_c'' DefinedFunctionKind (WasmSignature [] NORESULT))
                      \<lparr>FunctionIndex := Some 5\<rparr>)"

definition example_init_files :: "ObjFile list" where
  "example_init_files =
     [(example_file [] [])\<lparr>FileSymbols := [0, 1], LinkingInitFunctions := [(0, 65535), (1, 100)]\<rparr>,
      (example_file [] [])\<lparr>FileSymbols := [2], LinkingInitFunctions := [(0, 100)]\<rparr>]"

section \<open>Imports: \<^verbatim>\<open>calculateImports\<close>\<close>

text \<open>
  The loop over \<^verbatim>\<open>Symtab->getSymbols()\<close>. A symbol that passes the five \<^verbatim>\<open>continue\<close> guards
  is appended to \<^verbatim>\<open>ImportedSymbols\<close>; a function symbol gets
  \<^verbatim>\<open>NumImportedFunctions++\<close> as its function index, any other symbol is \<^verbatim>\<open>cast\<close> to a global
  symbol and gets \<^verbatim>\<open>NumImportedGlobals++\<close> as its global index.
\<close>

fun calculateImports_loop :: "Config \<Rightarrow> symref list \<Rightarrow> Writer \<Rightarrow> abort + Writer" where
  "calculateImports_loop cfg [] w = Inr w"
| "calculateImports_loop cfg (S # Ss) w =
     (if \<not> isUndefined (symbols w S) then calculateImports_loop cfg Ss w
      else if isDataSymbol (symbols w S) then calculateImports_loop cfg Ss w
      else if isWeak (symbols w S) \<and> \<not> Relocatable cfg then calculateImports_loop cfg Ss w
      else if \<not> isLive (symbols w S) then calculateImports_loop cfg Ss w
      else if \<not> IsUsedInRegularObj (symbols w S) then calculateImports_loop cfg Ss w
      else if isFunctionSymbol (symbols w S) then
        calculateImports_loop cfg Ss
          (w\<lparr>ImportedSymbols := ImportedSymbols w @ [S],
             symbols := (symbols w)(S := (symbols w S)\<lparr>FunctionIndex := Some (NumImportedFunctions w)\<rparr>),
             NumImportedFunctions := NumImportedFunctions w + 1\<rparr>)
      else if isGlobalSymbol (symbols w S) then
        calculateImports_loop cfg Ss
          (w\<lparr>ImportedSymbols := ImportedSymbols w @ [S],
             symbols := (symbols w)(S := (symbols w S)\<lparr>GlobalIndex := Some (NumImportedGlobals w)\<rparr>),
             NumImportedGlobals := NumImportedGlobals w + 1\<rparr>)
      else Inl BadCast)"

definition calculateImports :: "Config \<Rightarrow> symref list \<Rightarrow> Writer \<Rightarrow> abort + Writer" where
  "calculateImports cfg getSymbols w = calculateImports_loop cfg getSymbols w"

text \<open>The import condition in the words of the specification.\<close>

definition import_condition :: "Config \<Rightarrow> Symbol \<Rightarrow> bool" where
  "import_condition cfg s =
     (isUndefined s \<and> isLive s \<and> IsUsedInRegularObj s \<and> \<not> isDataSymbol s
      \<and> (\<not> isWeak s \<or> Relocatable cfg))"

text \<open>
  A symbol table of seven symbols: an undefined function \<^verbatim>\<open>puts\<close>, a defined function, a weak
  undefined function, an undefined global, an undefined data symbol, an undefined function
  \<^verbatim>\<open>exit\<close>, and an undefined function that is not live.
\<close>

definition example_import_store :: "symref \<Rightarrow> Symbol" where
  "example_import_store r =
     (if r = 0 then example_symbol ''puts'' UndefinedFunctionKind (WasmSignature [I32] I32)
      else if r = 1 then example_symbol ''main'' DefinedFunctionKind (WasmSignature [] I32)
      else if r = 2 then (example_symbol ''hook'' UndefinedFunctionKind (WasmSignature [] NORESULT))
                            \<lparr>isWeak := True\<rparr>
      else if r = 3 then example_symbol ''__stack_limit'' UndefinedGlobalKind (WasmSignature [] NORESULT)
      else if r = 4 then example_symbol ''environ'' UndefinedDataKind (WasmSignature [] NORESULT)
      else if r = 5 then example_symbol ''exit'' UndefinedFunctionKind (WasmSignature [I32] NORESULT)
      else (example_symbol ''unused'' UndefinedFunctionKind (WasmSignature [] NORESULT))
             \<lparr>isLive := False\<rparr>)"

definition example_config :: Config where
  "example_config =
     \<lparr>Relocatable = False, ImportMemory = False, ImportTable = False, ExportTable = False,
      ExportAll = False, MergeDataSegments = True, StackFirst = False, ZStackSize = 4096,
      GlobalBase = 1024,
      InitialMemory = 0, MaxMemory = 0\<rparr>"

section \<open>Memory layout: \<^verbatim>\<open>createOutputSegments\<close>, \<^verbatim>\<open>layoutMemory\<close>\<close>

definition kStackAlignment :: nat where
  "kStackAlignment = 16"

definition WasmPageSize :: nat where
  "WasmPageSize = 65536"

text \<open>
  Modelled from the spec: \<^verbatim>\<open>llvm::alignTo\<close> (\<^verbatim>\<open>MathExtras.h\<close>) is not part of the sources at
  hand; the spec reads it as "align up": the least multiple of the alignment that is not
  below the value. The division makes an alignment of 0 a fault, which the callers below
  turn into an abort. Assigning to a \<^verbatim>\<open>uint32_t\<close> keeps the low 32 bits.
\<close>

definition alignTo :: "nat \<Rightarrow> nat \<Rightarrow> nat" where
  "alignTo v a = (v + a - 1) div a * a"

definition uint32 :: "nat \<Rightarrow> nat" where
  "uint32 n = n mod 2 ^ 32"

text \<open>\<^verbatim>\<open>getOutputDataSegmentName\<close>; \<^verbatim>\<open>startswith\<close> is the prefix test.\<close>

definition startswith :: "string \<Rightarrow> string \<Rightarrow> bool" where
  "startswith s p = (take (length p) s = p)"

definition getOutputDataSegmentName :: "Config \<Rightarrow> string \<Rightarrow> string" where
  "getOutputDataSegmentName cfg n =
     (if \<not> MergeDataSegments cfg then n
      else if startswith n ''.text.'' then ''.text''
      else if startswith n ''.data.'' then ''.data''
      else if startswith n ''.bss.'' then ''.bss''
      else n)"

text \<open>
  Modelled from the spec: \<^verbatim>\<open>OutputSegment::addInputSegment\<close> (\<^verbatim>\<open>OutputSegment.h\<close>) is not part
  of the sources at hand. The spec describes an output segment as a named aggregation of
  input segments with a computed alignment and size: the alignment is the largest of its
  input segments' alignments, and each input segment is placed at the next offset aligned
  for it.
\<close>

definition addInputSegment :: "InputSegment \<Rightarrow> OutputSegment \<Rightarrow> abort + OutputSegment" where
  "addInputSegment InSeg S =
     (if SegmentAlignment InSeg = 0 then Inl DivisionByZero
      else
        (let Offset = uint32 (alignTo (Size S) (SegmentAlignment InSeg))
         in Inr (S\<lparr>Alignment := max (Alignment S) (SegmentAlignment InSeg),
                   InputSegments := InputSegments S @ [InSeg\<lparr>OutputSegmentOffset := Offset\<rparr>],
                   Size := uint32 (Offset + SegmentSize InSeg)\<rparr>)))"

text \<open>
  \<^verbatim>\<open>SegmentMap[Name]\<close> with \<^verbatim>\<open>S->addInputSegment(Segment)\<close>: the output segment of that name
  in \<^verbatim>\<open>Segments\<close> receives the input segment; \<open>None\<close> when no output segment has the name
  yet (the map holds exactly the segments of the vector, by name).
\<close>

fun addToSegment :: "string \<Rightarrow> InputSegment \<Rightarrow> OutputSegment list \<Rightarrow> (abort + OutputSegment list) option" where
  "addToSegment n InSeg [] = None"
| "addToSegment n InSeg (S # Ss) =
     (if Name S = n then
        Some (case addInputSegment InSeg S of Inl e \<Rightarrow> Inl e | Inr S' \<Rightarrow> Inr (S' # Ss))
      else
        (case addToSegment n InSeg Ss of
           None \<Rightarrow> None
         | Some (Inl e) \<Rightarrow> Some (Inl e)
         | Some (Inr Ss') \<Rightarrow> Some (Inr (S # Ss'))))"

fun createOutputSegments_file :: "Config \<Rightarrow> InputSegment list \<Rightarrow> Writer \<Rightarrow> abort + Writer" where
  "createOutputSegments_file cfg [] w = Inr w"
| "createOutputSegments_file cfg (Segment # rest) w =
     (if \<not> Live Segment then createOutputSegments_file cfg rest w
      else
        (let n = getOutputDataSegmentName cfg (SegmentName Segment) in
         case addToSegment n Segment (Segments w) of
           Some (Inl e) \<Rightarrow> Inl e
         | Some (Inr Ss') \<Rightarrow> createOutputSegments_file cfg rest (w\<lparr>Segments := Ss'\<rparr>)
         | None \<Rightarrow>
             (case addInputSegment Segment
                     \<lparr>Name = n, SegmentIndex = length (Segments w), Alignment = 0, Size = 0,
                      StartVA = 0, InputSegments = []\<rparr> of
                Inl e \<Rightarrow> Inl e
              | Inr S \<Rightarrow> createOutputSegments_file cfg rest (w\<lparr>Segments := Segments w @ [S]\<rparr>))))"

fun createOutputSegments :: "Config \<Rightarrow> ObjFile list \<Rightarrow> Writer \<Rightarrow> abort + Writer" where
  "createOutputSegments cfg [] w = Inr w"
| "createOutputSegments cfg (File # Files) w =
     (case createOutputSegments_file cfg (FileSegments File)
             (if SnaxABI File \<noteq> [] then w\<lparr>abis := abis w @ [SnaxABI File]\<rparr> else w) of
        Inl e \<Rightarrow> Inl e
      | Inr w' \<Rightarrow> createOutputSegments cfg Files w')"

text \<open>\<^verbatim>\<open>Sym->setVirtualAddress(VA)\<close> on the symbol object at address \<open>r\<close>.\<close>

definition setVirtualAddress :: "symref \<Rightarrow> nat \<Rightarrow> Writer \<Rightarrow> Writer" where
  "setVirtualAddress r va w = w\<lparr>symbols := (symbols w)(r := (symbols w r)\<lparr>VirtualAddress := va\<rparr>)\<rparr>"

text \<open>
  The lambda \<^verbatim>\<open>PlaceStack\<close>, on the local \<^verbatim>\<open>MemoryPtr\<close> and the state. The stack pointer symbol
  is dereferenced unchecked.
\<close>

definition PlaceStack :: "Config \<Rightarrow> nat \<times> Writer \<Rightarrow> abort + (nat \<times> Writer)" where
  "PlaceStack cfg st =
     (case st of (MemoryPtr, w) \<Rightarrow>
        if Relocatable cfg then Inr (MemoryPtr, w)
        else
          (let MemoryPtr1 = uint32 (alignTo MemoryPtr kStackAlignment);
               w1 = (if ZStackSize cfg \<noteq> alignTo (ZStackSize cfg) kStackAlignment
                     then error StackSizeNotAligned w else w);
               MemoryPtr2 = uint32 (MemoryPtr1 + ZStackSize cfg)
           in case StackPointer w1 of
                None \<Rightarrow> Inl NullDereference
              | Some sp \<Rightarrow>
                  Inr (MemoryPtr2,
                       w1\<lparr>symbols := (symbols w1)(sp := (symbols w1 sp)\<lparr>InitValue := MemoryPtr2\<rparr>)\<rparr>)))"

text \<open>The loop over \<^verbatim>\<open>Segments\<close>: align, record \<^verbatim>\<open>StartVA\<close>, advance by the size.\<close>

fun layoutSegments :: "OutputSegment list \<Rightarrow> nat \<Rightarrow> abort + (OutputSegment list \<times> nat)" where
  "layoutSegments [] MemoryPtr = Inr ([], MemoryPtr)"
| "layoutSegments (Seg # Segs) MemoryPtr =
     (if Alignment Seg = 0 then Inl DivisionByZero
      else
        (let MemoryPtr1 = uint32 (alignTo MemoryPtr (Alignment Seg)) in
         case layoutSegments Segs (uint32 (MemoryPtr1 + Size Seg)) of
           Inl e \<Rightarrow> Inl e
         | Inr (Segs', MemoryPtr') \<Rightarrow> Inr (Seg\<lparr>StartVA := MemoryPtr1\<rparr> # Segs', MemoryPtr')))"

text \<open>The tail of \<^verbatim>\<open>layoutMemory\<close> from the \<^verbatim>\<open>InitialMemory\<close> check on.\<close>

definition layoutMemory_pages :: "Config \<Rightarrow> nat \<Rightarrow> Writer \<Rightarrow> Writer" where
  "layoutMemory_pages cfg MemoryPtr0 w0 =
     (let (MemoryPtr, w1) =
            (if InitialMemory cfg \<noteq> 0 then
               (let wa = (if InitialMemory cfg \<noteq> alignTo (InitialMemory cfg) WasmPageSize
                          then error InitialMemoryNotAligned w0 else w0)
                in if MemoryPtr0 > InitialMemory cfg
                   then (MemoryPtr0, error (InitialMemoryTooSmall MemoryPtr0) wa)
                   else (InitialMemory cfg, wa))
             else (MemoryPtr0, w0));
          MemSize = uint32 (alignTo MemoryPtr WasmPageSize);
          w2 = w1\<lparr>NumMemoryPages := MemSize div WasmPageSize\<rparr>
      in if MaxMemory cfg \<noteq> 0 then
           (let wb = (if MaxMemory cfg \<noteq> alignTo (MaxMemory cfg) WasmPageSize
                      then error MaximumMemoryNotAligned w2 else w2);
                wc = (if MemoryPtr > MaxMemory cfg
                      then error (MaximumMemoryTooSmall MemoryPtr) wb else wb)
            in wc\<lparr>MaxMemoryPages := MaxMemory cfg div WasmPageSize\<rparr>)
         else w2)"

definition layoutMemory :: "Config \<Rightarrow> ObjFile list \<Rightarrow> Writer \<Rightarrow> abort + Writer" where
  "layoutMemory cfg ObjectFiles w0 =
     (case createOutputSegments cfg ObjectFiles w0 of
        Inl e \<Rightarrow> Inl e
      | Inr w1 \<Rightarrow>
         (case (if StackFirst cfg then PlaceStack cfg (0, w1) else Inr (GlobalBase cfg, w1)) of
            Inl e \<Rightarrow> Inl e
          | Inr (DataStart, w2) \<Rightarrow>
             (let w3 = (case DsoHandle w2 of None \<Rightarrow> w2 | Some r \<Rightarrow> setVirtualAddress r DataStart w2)
              in case layoutSegments (Segments w3) DataStart of
                   Inl e \<Rightarrow> Inl e
                 | Inr (Segs, MemoryPtr) \<Rightarrow>
                    (let w4 = w3\<lparr>Segments := Segs\<rparr>;
                         w5 = (case DataEnd w4 of None \<Rightarrow> w4
                               | Some r \<Rightarrow> setVirtualAddress r MemoryPtr w4)
                     in case (if \<not> StackFirst cfg then PlaceStack cfg (MemoryPtr, w5)
                              else Inr (MemoryPtr, w5)) of
                          Inl e \<Rightarrow> Inl e
                        | Inr (MemoryPtr', w6) \<Rightarrow>
                            (if \<not> Relocatable cfg then
                               (case HeapBase w6 of
                                  None \<Rightarrow> Inl NullDereference
                                | Some r \<Rightarrow>
                                    Inr (layoutMemory_pages cfg MemoryPtr'
                                           (setVirtualAddress r MemoryPtr' w6)))
                             else Inr (layoutMemory_pages cfg MemoryPtr' w6))))))"

text \<open>
  One object file with one live data segment of 100 bytes, aligned to 8; the synthetic
  symbols \<^verbatim>\<open>__stack_pointer\<close>, \<^verbatim>\<open>__data_end\<close>, \<^verbatim>\<open>__heap_base\<close> and \<^verbatim>\<open>__dso_handle\<close> at the
  addresses 0 to 3 of the store.
\<close>

definition example_layout_files :: "ObjFile list" where
  "example_layout_files =
     [(example_file [] [])
        \<lparr>FileSegments := [\<lparr>Live = True, Relocations = [], SegmentName = ''.data.table'',
                            SegmentAlignment = 8, SegmentSize = 100, OutputSegmentOffset = 0\<rparr>]\<rparr>]"

definition example_layout_writer :: Writer where
  "example_layout_writer =
     (new_Writer (\<lambda>r. example_symbol ''synthetic'' (if r = 0 then DefinedGlobalKind else DefinedDataKind)
                         (WasmSignature [] NORESULT)))
       \<lparr>StackPointer := Some 0, DataEnd := Some 1, HeapBase := Some 2, DsoHandle := Some 3\<rparr>"

section \<open>Exports: \<^verbatim>\<open>calculateExports\<close>\<close>











section \<open>Indirect functions: the relocation walk of \<^verbatim>\<open>assignIndexes\<close>, \<^verbatim>\<open>createElemSection\<close>\<close>

text \<open>
  The loop of the lambda \<^verbatim>\<open>HandleRelocs\<close> over the relocations of one chunk. The state is the
  chunk's file (its \<^verbatim>\<open>TypeMap\<close> and \<^verbatim>\<open>TypeIsUsed\<close> are written), the local \<^verbatim>\<open>TableIndex\<close> of
  \<^verbatim>\<open>assignIndexes\<close> (here \<open>TableIndex'\<close>) and the writer. \<^verbatim>\<open>hasTableIndex\<close>, \<^verbatim>\<open>hasFunctionIndex\<close> and
  \<^verbatim>\<open>setTableIndex\<close> (\<^verbatim>\<open>Symbols.h\<close>, outside the sources at hand) read and write the index
  slots of the symbol object. \<^verbatim>\<open>Chunk->File\<close> is the file whose chunk list is being walked.
\<close>

fun HandleRelocs_loop ::
  "WasmRelocation list \<Rightarrow> ObjFile \<Rightarrow> u32 \<Rightarrow> Writer \<Rightarrow> abort + (ObjFile \<times> u32 \<times> Writer)" where
  "HandleRelocs_loop [] File TableIndex' w = Inr (File, TableIndex', w)"
| "HandleRelocs_loop (Reloc # Relocs) File TableIndex' w =
     (if RelocKind Reloc = R_WEBASSEMBLY_TABLE_INDEX_I32
         \<or> RelocKind Reloc = R_WEBASSEMBLY_TABLE_INDEX_SLEB then
        (case getFunctionSymbol w File (RelocIndex Reloc) of
           Inl e \<Rightarrow> Inl e
         | Inr S \<Rightarrow>
             if TableIndex (symbols w S) \<noteq> None \<or> FunctionIndex (symbols w S) = None
             then HandleRelocs_loop Relocs File TableIndex' w
             else HandleRelocs_loop Relocs File (TableIndex' + 1)
                    (w\<lparr>symbols := (symbols w)(S := (symbols w S)\<lparr>TableIndex := Some TableIndex'\<rparr>),
                       IndirectFunctions := IndirectFunctions w @ [S]\<rparr>))
      else if RelocKind Reloc = R_WEBASSEMBLY_TYPE_INDEX_LEB then
        (if length (ObjTypes File) \<le> RelocIndex Reloc \<or> length (TypeMap File) \<le> RelocIndex Reloc
            \<or> length (TypeIsUsed File) \<le> RelocIndex Reloc then Inl OutOfRange
         else
           (case registerType (ObjTypes File ! RelocIndex Reloc) w of
              (i, w') \<Rightarrow>
                HandleRelocs_loop Relocs
                  (File\<lparr>TypeMap := (TypeMap File)[RelocIndex Reloc := i],
                        TypeIsUsed := (TypeIsUsed File)[RelocIndex Reloc := True]\<rparr>)
                  TableIndex' w'))
      else HandleRelocs_loop Relocs File TableIndex' w)"

definition HandleRelocs ::
  "'a InputChunk_scheme \<Rightarrow> ObjFile \<Rightarrow> u32 \<Rightarrow> Writer \<Rightarrow> abort + (ObjFile \<times> u32 \<times> Writer)" where
  "HandleRelocs Chunk File TableIndex' w =
     (if \<not> Live Chunk then Inr (File, TableIndex', w)
      else HandleRelocs_loop (Relocations Chunk) File TableIndex' w)"

fun HandleRelocs_chunks ::
  "'a InputChunk_scheme list \<Rightarrow> ObjFile \<Rightarrow> u32 \<Rightarrow> Writer \<Rightarrow> abort + (ObjFile \<times> u32 \<times> Writer)" where
  "HandleRelocs_chunks [] File TableIndex' w = Inr (File, TableIndex', w)"
| "HandleRelocs_chunks (Chunk # Chunks) File TableIndex' w =
     (case HandleRelocs Chunk File TableIndex' w of
        Inl e \<Rightarrow> Inl e
      | Inr (File', TableIndex'', w') \<Rightarrow> HandleRelocs_chunks Chunks File' TableIndex'' w')"

text \<open>
  The loop over the object files: the functions, the segments and the custom sections of
  each file, in this order.
\<close>

fun assignIndexes_relocs_files ::
  "ObjFile list \<Rightarrow> u32 \<Rightarrow> Writer \<Rightarrow> abort + (ObjFile list \<times> u32 \<times> Writer)" where
  "assignIndexes_relocs_files [] TableIndex' w = Inr ([], TableIndex', w)"
| "assignIndexes_relocs_files (File # Files) TableIndex' w =
     (case HandleRelocs_chunks (Functions File) File TableIndex' w of
        Inl e \<Rightarrow> Inl e
      | Inr (File1, TableIndex1, w1) \<Rightarrow>
         (case HandleRelocs_chunks (FileSegments File) File1 TableIndex1 w1 of
            Inl e \<Rightarrow> Inl e
          | Inr (File2, TableIndex2, w2) \<Rightarrow>
             (case HandleRelocs_chunks (CustomSections File) File2 TableIndex2 w2 of
                Inl e \<Rightarrow> Inl e
              | Inr (File3, TableIndex3, w3) \<Rightarrow>
                 (case assignIndexes_relocs_files Files TableIndex3 w3 of
                    Inl e \<Rightarrow> Inl e
                  | Inr (Files', TableIndex'', w') \<Rightarrow> Inr (File3 # Files', TableIndex'', w')))))"

text \<open>
  The part of \<^verbatim>\<open>assignIndexes\<close> from \<^verbatim>\<open>uint32_t TableIndex = kInitialTableOffset\<close> to the end
  of the relocation walk.
\<close>

definition assignIndexes_relocs :: "ObjFile list \<Rightarrow> Writer \<Rightarrow> abort + (ObjFile list \<times> u32 \<times> Writer)" where
  "assignIndexes_relocs ObjectFiles w =
     assignIndexes_relocs_files ObjectFiles (of_nat kInitialTableOffset) w"

text \<open>
  \<^verbatim>\<open>createElemSection\<close>. \<^verbatim>\<open>writeInitExpr\<close> is a parameter; \<open>asserts\<close> says whether the build
  keeps the \<^verbatim>\<open>assert(Sym->getTableIndex() == TableIndex)\<close> of the loop.
\<close>

datatype WasmInitExpr = WasmInitExpr (Opcode: u8) (Int32: nat)

definition WASM_OPCODE_I32_CONST :: u8 where
  "WASM_OPCODE_I32_CONST = 0x41"

fun createElemSection_loop :: "bool \<Rightarrow> Writer \<Rightarrow> symref list \<Rightarrow> u32 \<Rightarrow> abort + u8 list" where
  "createElemSection_loop asserts w [] TableIndex' = Inr []"
| "createElemSection_loop asserts w (S # Ss) TableIndex' =
     (if asserts \<and> TableIndex (symbols w S) \<noteq> Some TableIndex' then Inl AssertionFailure
      else
        (case getFunctionIndex (symbols w S) of
           Inl e \<Rightarrow> Inl e
         | Inr i \<Rightarrow>
             (case createElemSection_loop asserts w Ss (TableIndex' + 1) of
                Inl e \<Rightarrow> Inl e
              | Inr bs \<Rightarrow> Inr (writeUleb128 (unat i) @ bs))))"

definition createElemSection ::
  "bool \<Rightarrow> (WasmInitExpr \<Rightarrow> u8 list) \<Rightarrow> Writer \<Rightarrow> abort + u8 list option" where
  "createElemSection asserts writeInitExpr w =
     (if IndirectFunctions w = [] then Inr None
      else
        (case createElemSection_loop asserts w (IndirectFunctions w) (of_nat kInitialTableOffset) of
           Inl e \<Rightarrow> Inl e
         | Inr bs \<Rightarrow>
             Inr (Some (writeUleb128 1 @ writeUleb128 0
                        @ writeInitExpr (WasmInitExpr WASM_OPCODE_I32_CONST kInitialTableOffset)
                        @ writeUleb128 (length (IndirectFunctions w))
                        @ bs))))"

text \<open>
  The relocations the walk visits in one file, in order; the table-index relocations among
  them and the symbol each one targets; and what lets the walk get past a relocation: a
  table-index relocation names a function symbol of the file, a type-index relocation a
  type of the file.
\<close>

definition live_relocs :: "'a InputChunk_scheme \<Rightarrow> WasmRelocation list" where
  "live_relocs Chunk = (if Live Chunk then Relocations Chunk else [])"

definition file_relocs :: "ObjFile \<Rightarrow> WasmRelocation list" where
  "file_relocs File =
     concat (map live_relocs (Functions File)) @ concat (map live_relocs (FileSegments File))
     @ concat (map live_relocs (CustomSections File))"

definition is_table_reloc :: "WasmRelocation \<Rightarrow> bool" where
  "is_table_reloc R =
     (RelocKind R = R_WEBASSEMBLY_TABLE_INDEX_I32 \<or> RelocKind R = R_WEBASSEMBLY_TABLE_INDEX_SLEB)"

definition reloc_target :: "ObjFile \<Rightarrow> WasmRelocation \<Rightarrow> symref" where
  "reloc_target File R = FileSymbols File ! RelocIndex R"

definition reloc_wf :: "Writer \<Rightarrow> ObjFile \<Rightarrow> WasmRelocation \<Rightarrow> bool" where
  "reloc_wf w File R =
     ((is_table_reloc R \<longrightarrow> RelocIndex R < length (FileSymbols File)
          \<and> isFunctionSymbol (symbols w (FileSymbols File ! RelocIndex R)))
      \<and> (RelocKind R = R_WEBASSEMBLY_TYPE_INDEX_LEB \<longrightarrow> RelocIndex R < length (ObjTypes File)
          \<and> RelocIndex R < length (TypeMap File) \<and> RelocIndex R < length (TypeIsUsed File)))"

text \<open>
  The invariant of the walk: the symbols of \<^verbatim>\<open>IndirectFunctions\<close> are distinct, have a
  function index, and the one at position \<open>k\<close> has table index \<open>1 + k\<close>; no other symbol has a
  table index; the local counter is one more than the number of entries.
\<close>

definition table_inv :: "u32 \<Rightarrow> Writer \<Rightarrow> bool" where
  "table_inv TableIndex' w =
     (distinct (IndirectFunctions w)
      \<and> (\<forall>k < length (IndirectFunctions w).
            TableIndex (symbols w (IndirectFunctions w ! k)) = Some (1 + of_nat k)
            \<and> FunctionIndex (symbols w (IndirectFunctions w ! k)) \<noteq> None)
      \<and> (\<forall>S. TableIndex (symbols w S) \<noteq> None \<longrightarrow> S \<in> set (IndirectFunctions w))
      \<and> TableIndex' = 1 + of_nat (length (IndirectFunctions w)))"

text \<open>What the walk leaves alone in a file and in the symbol objects.\<close>

definition file_kept :: "ObjFile \<Rightarrow> ObjFile \<Rightarrow> bool" where
  "file_kept File File' =
     (FileSymbols File' = FileSymbols File \<and> ObjTypes File' = ObjTypes File
      \<and> Functions File' = Functions File \<and> FileSegments File' = FileSegments File
      \<and> CustomSections File' = CustomSections File
      \<and> length (TypeMap File') = length (TypeMap File)
      \<and> length (TypeIsUsed File') = length (TypeIsUsed File))"

definition symbols_kept :: "Writer \<Rightarrow> Writer \<Rightarrow> bool" where
  "symbols_kept w w' =
     (errors w' = errors w
      \<and> (\<forall>S. FunctionIndex (symbols w' S) = FunctionIndex (symbols w S)
             \<and> SymbolKind (symbols w' S) = SymbolKind (symbols w S)
             \<and> (TableIndex (symbols w S) \<noteq> None
                  \<longrightarrow> TableIndex (symbols w' S) = TableIndex (symbols w S))))"

text \<open>
  Two functions \<^verbatim>\<open>f\<close> and \<^verbatim>\<open>g\<close> with function indices 0 and 1, and a weak undefined \<^verbatim>\<open>hook\<close>
  that is not imported and so has no function index. The first file takes the address of
  \<^verbatim>\<open>g\<close> and of \<^verbatim>\<open>hook\<close> in a function and of \<^verbatim>\<open>f\<close> in a data segment; the second takes the
  address of \<^verbatim>\<open>g\<close> again, and has a dead function whose relocation is never looked at. A
  further file, linked on its own, only takes the address of \<^verbatim>\<open>hook\<close>.
\<close>

definition example_table_store :: "symref \<Rightarrow> Symbol" where
  "example_table_store r =
     (if r = 0 then (example_symbol ''f'' DefinedFunctionKind (WasmSignature [] NORESULT))
                      \<lparr>FunctionIndex := Some 0\<rparr>
      else if r = 1 then (example_symbol ''g'' DefinedFunctionKind (WasmSignature [] NORESULT))
                      \<lparr>FunctionIndex := Some 1\<rparr>
      else (example_symbol ''hook'' UndefinedFunctionKind (WasmSignature [] NORESULT))
             \<lparr>isWeak := True\<rparr>)"

definition example_table_files :: "ObjFile list" where
  "example_table_files =
     [(example_file [] [])
        \<lparr>ObjTypes := [WasmSignature [] NORESULT], TypeIsUsed := [False], TypeMap := [0],
         FileSymbols := [0, 1, 2],
         Functions :=
           [\<lparr>Live = True,
             Relocations = [WasmRelocation R_WEBASSEMBLY_TABLE_INDEX_SLEB 1,
                            WasmRelocation R_WEBASSEMBLY_TYPE_INDEX_LEB 0,
                            WasmRelocation R_WEBASSEMBLY_TABLE_INDEX_SLEB 2],
             Signature = WasmSignature [] NORESULT\<rparr>],
         FileSegments :=
           [\<lparr>Live = True, Relocations = [WasmRelocation R_WEBASSEMBLY_TABLE_INDEX_I32 0],
             SegmentName = ''.data.callbacks'', SegmentAlignment = 4, SegmentSize = 4,
             OutputSegmentOffset = 0\<rparr>]\<rparr>,
      (example_file [] [])
        \<lparr>FileSymbols := [1, 0],
         Functions :=
           [\<lparr>Live = False, Relocations = [WasmRelocation R_WEBASSEMBLY_TABLE_INDEX_SLEB 5],
             Signature = WasmSignature [] NORESULT\<rparr>,
            \<lparr>Live = True, Relocations = [WasmRelocation R_WEBASSEMBLY_TABLE_INDEX_SLEB 0],
             Signature = WasmSignature [] NORESULT\<rparr>]\<rparr>]"

definition example_hook_file :: ObjFile where
  "example_hook_file =
     (example_file [] [])
        \<lparr>FileSymbols := [2],
         Functions :=
           [\<lparr>Live = True, Relocations = [WasmRelocation R_WEBASSEMBLY_TABLE_INDEX_SLEB 0],
             Signature = WasmSignature [] NORESULT\<rparr>]\<rparr>"

chapter \<open>Properties\<close>

section \<open>The type table\<close>
















lemma types_ok_new_Writer: "types_ok (new_Writer store)"
  by (simp add: types_ok_def new_Writer_def)




lemma createFunctionSection_loop_result:
  "createFunctionSection_loop Fs w =
     (concat (map (\<lambda>F. writeUleb128 (case TypeIndices w (Signature F) of None \<Rightarrow> 0 | Some i \<Rightarrow> i)) Fs),
      w\<lparr>errors := errors w
           @ map (\<lambda>F. TypeNotFound (Signature F))
               (filter (\<lambda>F. TypeIndices w (Signature F) = None) Fs)\<rparr>)"
proof (induction Fs arbitrary: w)
  case Nil
  then show ?case by simp
next
  case (Cons F Fs)
  show ?case
  proof (cases "TypeIndices w (Signature F)")
    case None
    let ?w1 = "w\<lparr>errors := errors w @ [TypeNotFound (Signature F)]\<rparr>"
    have l: "lookupType (Signature F) w = (0, ?w1)"
      using None by (simp add: lookupType_def error_def)
    have t: "TypeIndices ?w1 = TypeIndices w" by simp
    show ?thesis
      using None by (simp add: l Cons.IH[of ?w1] t)
  next
    case (Some i)
    have l: "lookupType (Signature F) w = (i, w)"
      using Some by (simp add: lookupType_def)
    show ?thesis
      using Some by (simp add: l Cons.IH[of w])
  qed
qed

text \<open>
  C7, as amended. For a signature that was never registered \<^verbatim>\<open>lookupType\<close> hands one message
  to the recoverable \<^verbatim>\<open>error()\<close>, returns index 0 and leaves everything else as it was; the
  link goes on. \<^verbatim>\<open>createFunctionSection\<close>, which looks up the signature of every function,
  always returns: when there is a function it emits the whole body, the count and one index
  per function, with 0 in the place of every signature that is not registered, and the
  error list grows by one message for each such function, in order.
\<close>

theorem lookupType_unregistered_is_recoverable:
  "(TypeIndices w Sig = None
      \<longrightarrow> lookupType Sig w = (0, w\<lparr>errors := errors w @ [TypeNotFound Sig]\<rparr>))
   \<and> createFunctionSection w =
       (if InputFunctions w = [] then None
        else Some (writeUleb128 (length (InputFunctions w))
                   @ concat (map (\<lambda>F. writeUleb128
                                    (case TypeIndices w (Signature F) of None \<Rightarrow> 0 | Some i \<Rightarrow> i))
                               (InputFunctions w))),
        w\<lparr>errors := errors w
             @ map (\<lambda>F. TypeNotFound (Signature F))
                 (filter (\<lambda>F. TypeIndices w (Signature F) = None) (InputFunctions w))\<rparr>)"
proof (intro conjI impI)
  assume "TypeIndices w Sig = None"
  then show "lookupType Sig w = (0, w\<lparr>errors := errors w @ [TypeNotFound Sig]\<rparr>)"
    by (simp add: lookupType_def error_def)
next
  show "createFunctionSection w =
       (if InputFunctions w = [] then None
        else Some (writeUleb128 (length (InputFunctions w))
                   @ concat (map (\<lambda>F. writeUleb128
                                    (case TypeIndices w (Signature F) of None \<Rightarrow> 0 | Some i \<Rightarrow> i))
                               (InputFunctions w))),
        w\<lparr>errors := errors w
             @ map (\<lambda>F. TypeNotFound (Signature F))
                 (filter (\<lambda>F. TypeIndices w (Signature F) = None) (InputFunctions w))\<rparr>)"
  proof (cases "InputFunctions w = []")
    case True
    then show ?thesis by (simp add: createFunctionSection_def)
  next
    case False
    then show ?thesis
      by (simp add: createFunctionSection_def createFunctionSection_loop_result)
  qed
qed

theorem lookupType_unregistered_is_recoverable_witness:
  "TypeIndices example_lookup_writer (WasmSignature [] NORESULT) = None
   \<and> TypeIndices example_lookup_writer (WasmSignature [I32] I32) = Some 1
   \<and> lookupType (WasmSignature [] NORESULT) example_lookup_writer
       = (0, example_lookup_writer\<lparr>errors := [TypeNotFound (WasmSignature [] NORESULT)]\<rparr>)
   \<and> fst (createFunctionSection example_lookup_writer) = Some [3, 0, 1, 0]
   \<and> errors (snd (createFunctionSection example_lookup_writer))
       = [TypeNotFound (WasmSignature [] NORESULT), TypeNotFound (WasmSignature [] NORESULT)]"
proof -
  note defs = example_lookup_writer_def example_types_writer_def new_Writer_def registerType_def
  have t0: "TypeIndices example_lookup_writer (WasmSignature [] NORESULT) = None"
    and t1: "TypeIndices example_lookup_writer (WasmSignature [I32] I32) = Some 1"
    and e0: "errors example_lookup_writer = []"
    and fs: "InputFunctions example_lookup_writer =
        [\<lparr>Live = True, Relocations = [], Signature = WasmSignature [] NORESULT\<rparr>,
         \<lparr>Live = True, Relocations = [], Signature = WasmSignature [I32] I32\<rparr>,
         \<lparr>Live = True, Relocations = [], Signature = WasmSignature [] NORESULT\<rparr>]"
    by (simp_all add: defs)
  note T = lookupType_unregistered_is_recoverable
    [of example_lookup_writer "WasmSignature [] NORESULT"]
  have l: "lookupType (WasmSignature [] NORESULT) example_lookup_writer
       = (0, example_lookup_writer\<lparr>errors := [TypeNotFound (WasmSignature [] NORESULT)]\<rparr>)"
    using T t0 e0 by simp
  have c: "createFunctionSection example_lookup_writer =
       (Some [3, 0, 1, 0],
        example_lookup_writer\<lparr>errors := [TypeNotFound (WasmSignature [] NORESULT),
                                           TypeNotFound (WasmSignature [] NORESULT)]\<rparr>)"
    using T[THEN conjunct2] unfolding fs
    by (simp add: t0 t1 e0 writeUleb128.simps)
  show ?thesis
    using t0 t1 l c by simp
qed

text \<open>
  C7 as stated fails: with no signature registered, \<^verbatim>\<open>lookupType\<close> returns 0 after recording
  its message, and \<^verbatim>\<open>createFunctionSection\<close> still emits its body: the count 3 and the
  substitute index 0 for each of the three functions.
\<close>

theorem lookupType_not_fatal_counterexample:
  "lookupType (WasmSignature [] NORESULT) example_types_writer
     = (0, example_types_writer\<lparr>errors := [TypeNotFound (WasmSignature [] NORESULT)]\<rparr>)
   \<and> fst (createFunctionSection (example_types_writer)) = Some [3, 0, 0, 0]
   \<and> errors (snd (createFunctionSection example_types_writer))
       = [TypeNotFound (WasmSignature [] NORESULT), TypeNotFound (WasmSignature [I32] I32),
          TypeNotFound (WasmSignature [] NORESULT)]"
  by (simp add: createFunctionSection_def example_types_writer_def new_Writer_def lookupType_def
      error_def writeUleb128.simps split: prod.splits)

section \<open>The dispatcher\<close>

lemma find_colon_less: "find_colon str = Some p \<Longrightarrow> p < length str"
  by (induction str arbitrary: p) (auto split: if_splits option.splits)

lemma after_colon_1:
  "after_colon (Suc 0) str = Inr (drop (case find_colon str of None \<Rightarrow> 0 | Some p \<Rightarrow> p + 1) str)"
  using find_colon_less[of str] by (auto simp: after_colon_def split: option.splits)

lemma create_if_abort: "create_if name findIndex str need_else = Inl e \<Longrightarrow> e = NullDereference"
  by (auto simp: create_if_def after_colon_1 Let_def split: option.splits if_splits)

lemma create_ifs_abort: "create_ifs name findIndex strs need_else = Inl e \<Longrightarrow> e = NullDereference"
proof (induction strs arbitrary: need_else)
  case Nil
  then show ?case by simp
next
  case (Cons str strs)
  then show ?case
    by (auto split: sum.splits prod.splits dest: create_if_abort)
qed

lemma action_loop_abort: "action_loop name findIndex acts st = Inl e \<Longrightarrow> e = NullDereference"
proof (induction name findIndex acts st rule: action_loop.induct)
  case (1 name findIndex st)
  then show ?case by simp
next
  case (2 name findIndex act acts OS has_dispatched need_else act_cnt)
  then show ?case
    by (auto split: sum.splits prod.splits if_splits dest: create_if_abort)
qed

lemma action_files_abort: "action_files name findIndex Files st = Inl e \<Longrightarrow> e = NullDereference"
  by (induction Files arbitrary: st) (auto split: sum.splits dest: action_loop_abort)

lemma after_colon_abort: "after_colon k str = Inl e \<Longrightarrow> e = OutOfRange"
  by (auto simp: after_colon_def Let_def split: if_splits)

lemma notify_loop_abort: "notify_loop notifs st = Inl e \<Longrightarrow> e = OutOfRange"
proof (induction notifs st rule: notify_loop.induct)
  case (1 st)
  then show ?case by simp
next
  case (2 notif notifs not_cnt has_dispatched notify_handlers)
  then show ?case
    by (auto split: sum.splits if_splits dest: after_colon_abort)
qed

lemma notify_files_abort: "notify_files Files st = Inl e \<Longrightarrow> e = OutOfRange"
  by (induction Files arbitrary: st) (auto split: sum.splits dest: notify_loop_abort)

lemma notify_codes_abort: "notify_codes name findIndex hs ne = Inl e \<Longrightarrow> e = NullDereference"
proof (induction hs arbitrary: ne)
  case Nil
  then show ?case by simp
next
  case (Cons h hs)
  then show ?case
    by (auto split: sum.splits prod.splits if_splits dest: create_ifs_abort)
qed

lemma create_action_dispatch_abort:
  "create_action_dispatch name findIndex a Files = Inl e \<Longrightarrow> e = NullDereference"
  by (auto simp: create_action_dispatch_def split: sum.splits prod.splits dest: action_files_abort)

lemma create_notify_dispatch_abort:
  "create_notify_dispatch name findIndex a Files = Inl e \<Longrightarrow> e = NullDereference \<or> e = OutOfRange"
  by (auto simp: create_notify_dispatch_def split: sum.splits prod.splits if_splits
      dest: notify_files_abort notify_codes_abort create_ifs_abort)

lemma createDispatchFunction_abort:
  "createDispatchFunction name findIndex Files = Inl e \<Longrightarrow> e = NullDereference \<or> e = OutOfRange"
  by (auto simp: createDispatchFunction_def dispatch_body_content_def
      split: sum.splits option.splits
      dest: create_action_dispatch_abort create_notify_dispatch_abort)

text \<open>
  C10. Whatever the entry string, the name encoding and the symbol table, \<^verbatim>\<open>create_if\<close> never
  ends in the \<^verbatim>\<open>std::runtime_error\<close> of its \<^verbatim>\<open>else\<close> branch: the index is an unsigned 32-bit
  value, so \<^verbatim>\<open>index >= 0\<close> holds. A target name the symbol table does not know makes the
  unchecked dereference of the null pointer the outcome, not that error; and no run of
  \<^verbatim>\<open>createDispatchFunction\<close> as a whole ends in it either.
\<close>

theorem create_if_never_throws:
  "create_if name findIndex str need_else \<noteq> Inl (RuntimeError msg)
   \<and> (findIndex (drop (case find_colon str of None \<Rightarrow> 0 | Some p \<Rightarrow> p + 1) str) = None
        \<longrightarrow> create_if name findIndex str need_else = Inl NullDereference)
   \<and> createDispatchFunction name findIndex ObjectFiles \<noteq> Inl (RuntimeError msg)"
proof (intro conjI impI)
  show "create_if name findIndex str need_else \<noteq> Inl (RuntimeError msg)"
    using create_if_abort by fastforce
  show "createDispatchFunction name findIndex ObjectFiles \<noteq> Inl (RuntimeError msg)"
    using createDispatchFunction_abort by fastforce
next
  assume "findIndex (drop (case find_colon str of None \<Rightarrow> 0 | Some p \<Rightarrow> p + 1) str) = None"
  then show "create_if name findIndex str need_else = Inl NullDereference"
    by (simp add: create_if_def after_colon_1 Let_def)
qed

theorem create_if_never_throws_witness:
  "example_find (drop (case find_colon ''transfer:no_such_function'' of None \<Rightarrow> 0 | Some p \<Rightarrow> p + 1)
       ''transfer:no_such_function'') = None
   \<and> create_if string_to_name example_find ''transfer:no_such_function'' False = Inl NullDereference
   \<and> createDispatchFunction string_to_name example_find
        [example_file [''transfer:no_such_function''] []] = Inl NullDereference"
proof -
  have a: "example_find (drop (case find_colon ''transfer:no_such_function'' of None \<Rightarrow> 0 | Some p \<Rightarrow> p + 1)
       ''transfer:no_such_function'') = None"
    by (simp add: example_find_def)
  have b: "createDispatchFunction string_to_name example_find
        [example_file [''transfer:no_such_function''] []] = Inl NullDereference"
    using a by (simp add: createDispatchFunction_def dispatch_body_content_def example_find_def
        create_action_dispatch_def example_file_def create_if_def after_colon_1 Let_def)
  show ?thesis
    using create_if_never_throws[of string_to_name example_find "''transfer:no_such_function''" False
        "''wasm_ld internal error function not found''" "[example_file [''transfer:no_such_function''] []]"]
      a b by simp
qed


lemma action_loop_fresh:
  "action_loop name findIndex acts (OS, seen, ne, cnt) =
     (case create_ifs name findIndex (fresh_entries seen acts) ne of
        Inl e \<Rightarrow> Inl e
      | Inr (bs, ne') \<Rightarrow>
          Inr (OS @ bs, seen \<union> set acts, ne', cnt + length (fresh_entries seen acts)))"
proof (induction acts arbitrary: OS seen ne cnt)
  case Nil
  then show ?case by simp
next
  case (Cons act acts)
  show ?case
  proof (cases "act \<in> seen")
    case True
    then show ?thesis using Cons.IH[of OS seen ne cnt]
      by (auto simp: insert_absorb split: sum.splits prod.splits)
  next
    case False
    show ?thesis
    proof (cases "create_if name findIndex act ne")
      case (Inl e)
      then show ?thesis using False by simp
    next
      case (Inr r)
      obtain bs ne1 where r: "r = (bs, ne1)" by (cases r)
      show ?thesis
        using False Inr r Cons.IH[of "OS @ bs" "insert act seen" ne1 "cnt + 1"]
        by (auto split: sum.splits prod.splits)
    qed
  qed
qed

lemma fresh_entries_append:
  "fresh_entries seen (xs @ ys) = fresh_entries seen xs @ fresh_entries (seen \<union> set xs) ys"
  by (induction xs arbitrary: seen) (auto simp: insert_absorb)

lemma create_ifs_append:
  "create_ifs name findIndex (xs @ ys) ne =
     (case create_ifs name findIndex xs ne of
        Inl e \<Rightarrow> Inl e
      | Inr (bs, ne1) \<Rightarrow>
          (case create_ifs name findIndex ys ne1 of
             Inl e \<Rightarrow> Inl e
           | Inr (bs', ne2) \<Rightarrow> Inr (bs @ bs', ne2)))"
  by (induction xs arbitrary: ne) (auto split: sum.splits prod.splits)

lemma action_files_concat:
  "action_files name findIndex Files (OS, seen, ne, cnt) =
     action_loop name findIndex (concat (map SnaxActions Files)) (OS, seen, ne, cnt)"
proof (induction Files arbitrary: OS seen ne cnt)
  case Nil
  then show ?case by simp
next
  case (Cons File Files)
  show ?case
    by (auto simp: action_loop_fresh fresh_entries_append create_ifs_append Cons.IH Un_assoc
        split: sum.splits prod.splits)
qed

lemma create_action_dispatch_first_occurrences:
  "create_action_dispatch name findIndex a Files =
     (case create_ifs name findIndex (first_occurrences (concat (map SnaxActions Files))) False of
        Inl e \<Rightarrow> Inl e
      | Inr (OS, ne) \<Rightarrow>
          Inr (OS
               @ (if length (first_occurrences (concat (map SnaxActions Files))) > 0
                  then writeU8 OPCODE_ELSE else [])
               @ writeU8 OPCODE_GET_LOCAL @ writeUleb128 0
               @ writeU8 OPCODE_I64_CONST @ encodeSLEB128 (sint (name ''snax''))
               @ writeU8 OPCODE_I64_NE
               @ writeU8 OPCODE_IF @ writeU8 0x40
               @ writeU8 OPCODE_I32_CONST @ writeUleb128 0
               @ writeU8 OPCODE_I64_CONST @ writeUleb128 SNAX_ERROR_NO_ACTION
               @ writeU8 OPCODE_CALL @ writeUleb128 (unat a)
               @ post_dispatch_call findIndex
               @ writeU8 OPCODE_END
               @ concat (replicate (length (first_occurrences (concat (map SnaxActions Files))))
                   (writeU8 OPCODE_END))))"
  by (auto simp: create_action_dispatch_def action_files_concat action_loop_fresh
      first_occurrences_def split: sum.splits prod.splits)

lemma notify_loop_fresh:
  "notify_loop notifs (cnt, seen, hs) =
     (case register_entries (fresh_entries seen notifs) hs of
        Inl e \<Rightarrow> Inl e
      | Inr hs' \<Rightarrow> Inr (cnt + length (fresh_entries seen notifs), seen \<union> set notifs, hs'))"
proof (induction notifs arbitrary: cnt seen hs)
  case Nil
  then show ?case by simp
next
  case (Cons notif notifs)
  show ?case
  proof (cases "notif \<in> seen")
    case True
    then show ?thesis using Cons.IH[of cnt seen hs]
      by (auto simp: insert_absorb split: sum.splits)
  next
    case False
    show ?thesis
    proof (cases "after_colon 2 notif")
      case (Inl e)
      then show ?thesis using False by simp
    next
      case (Inr rest)
      show ?thesis
        using False Inr
          Cons.IH[of "cnt + 1" "insert notif seen" "handlers_push (before_colon notif) rest hs"]
        by (auto split: sum.splits)
    qed
  qed
qed

lemma register_entries_append:
  "register_entries (xs @ ys) hs =
     (case register_entries xs hs of Inl e \<Rightarrow> Inl e | Inr hs' \<Rightarrow> register_entries ys hs')"
  by (induction xs arbitrary: hs) (auto split: sum.splits)

lemma notify_files_concat:
  "notify_files Files (cnt, seen, hs) =
     notify_loop (concat (map SnaxNotify Files)) (cnt, seen, hs)"
proof (induction Files arbitrary: cnt seen hs)
  case Nil
  then show ?case by simp
next
  case (Cons File Files)
  show ?case
    by (auto simp: notify_loop_fresh fresh_entries_append register_entries_append Cons.IH Un_assoc
        split: sum.splits)
qed

lemma notify_files_first_occurrences:
  "notify_files Files (0, {}, []) =
     (case register_entries (first_occurrences (concat (map SnaxNotify Files))) [] of
        Inl e \<Rightarrow> Inl e
      | Inr hs \<Rightarrow>
          Inr (length (first_occurrences (concat (map SnaxNotify Files))),
               set (concat (map SnaxNotify Files)), hs))"
  by (auto simp: notify_files_concat notify_loop_fresh first_occurrences_def split: sum.splits)

lemma create_notify_dispatch_cong:
  assumes "first_occurrences (concat (map SnaxNotify Files1))
         = first_occurrences (concat (map SnaxNotify Files2))"
  shows "create_notify_dispatch name findIndex a Files1 = create_notify_dispatch name findIndex a Files2"
  unfolding create_notify_dispatch_def notify_files_first_occurrences assms
  by (auto split: sum.splits)

text \<open>
  C9, as amended. The body \<^verbatim>\<open>createDispatchFunction\<close> produces is determined by the sequence
  of first occurrences of the \<^verbatim>\<open>snax_actions\<close> strings and that of the \<^verbatim>\<open>snax_notify\<close>
  strings, taken in object-file order: two symbol tables that agree on both sequences get
  the same bytes (or the same abort), however the strings are spread over object files and
  however often they are repeated.
\<close>

theorem dispatch_determined_by_first_occurrences:
  assumes "first_occurrences (concat (map SnaxActions Files1))
         = first_occurrences (concat (map SnaxActions Files2))"
    and "first_occurrences (concat (map SnaxNotify Files1))
         = first_occurrences (concat (map SnaxNotify Files2))"
  shows "createDispatchFunction name findIndex Files1 = createDispatchFunction name findIndex Files2"
proof -
  have "\<And>a. create_action_dispatch name findIndex a Files1 = create_action_dispatch name findIndex a Files2"
    unfolding create_action_dispatch_first_occurrences assms(1) by simp
  moreover have "\<And>a. create_notify_dispatch name findIndex a Files1
      = create_notify_dispatch name findIndex a Files2"
    using assms(2) by (rule create_notify_dispatch_cong)
  ultimately show ?thesis
    unfolding createDispatchFunction_def dispatch_body_content_def by (simp only:)
qed

theorem dispatch_determined_by_first_occurrences_witness:
  "first_occurrences (concat (map SnaxActions
       [example_file [''transfer:on_transfer'', ''issue:on_issue'', ''transfer:on_transfer'']
          [''snax::onerror:handle_err'']]))
     = first_occurrences (concat (map SnaxActions
       [example_file [''transfer:on_transfer''] [],
        example_file [''issue:on_issue''] [''snax::onerror:handle_err'', ''snax::onerror:handle_err'']]))
   \<and> first_occurrences (concat (map SnaxNotify
       [example_file [''transfer:on_transfer'', ''issue:on_issue'', ''transfer:on_transfer'']
          [''snax::onerror:handle_err'']]))
     = first_occurrences (concat (map SnaxNotify
       [example_file [''transfer:on_transfer''] [],
        example_file [''issue:on_issue''] [''snax::onerror:handle_err'', ''snax::onerror:handle_err'']]))
   \<and> createDispatchFunction string_to_name example_find
       [example_file [''transfer:on_transfer'', ''issue:on_issue'', ''transfer:on_transfer'']
          [''snax::onerror:handle_err'']]
     = createDispatchFunction string_to_name example_find
       [example_file [''transfer:on_transfer''] [],
        example_file [''issue:on_issue''] [''snax::onerror:handle_err'', ''snax::onerror:handle_err'']]"
proof -
  have a: "first_occurrences (concat (map SnaxActions
       [example_file [''transfer:on_transfer'', ''issue:on_issue'', ''transfer:on_transfer'']
          [''snax::onerror:handle_err'']]))
     = first_occurrences (concat (map SnaxActions
       [example_file [''transfer:on_transfer''] [],
        example_file [''issue:on_issue''] [''snax::onerror:handle_err'', ''snax::onerror:handle_err'']]))"
    by (simp add: first_occurrences_def example_file_def)
  have b: "first_occurrences (concat (map SnaxNotify
       [example_file [''transfer:on_transfer'', ''issue:on_issue'', ''transfer:on_transfer'']
          [''snax::onerror:handle_err'']]))
     = first_occurrences (concat (map SnaxNotify
       [example_file [''transfer:on_transfer''] [],
        example_file [''issue:on_issue''] [''snax::onerror:handle_err'', ''snax::onerror:handle_err'']]))"
    by (simp add: first_occurrences_def example_file_def)
  show ?thesis
    using dispatch_determined_by_first_occurrences[OF a b, of string_to_name example_find] a b
    by simp
qed


lemma name_transfer: "string_to_name ''transfer'' = 14829575313431724032"
  by (simp add: string_to_name_def char_to_symbol_def)

lemma name_issue: "string_to_name ''issue'' = 8516769789752901632"
  by (simp add: string_to_name_def char_to_symbol_def)

lemma name_snax: "string_to_name ''snax'' = 14181219500078137344"
  by (simp add: string_to_name_def char_to_symbol_def)

lemma name_onerror: "string_to_name ''onerror'' = 11877535737890996224"
  by (simp add: string_to_name_def char_to_symbol_def)

lemmas dispatch_eval =
  createDispatchFunction_def dispatch_body_content_def create_action_dispatch_def
  create_notify_dispatch_def example_find_def example_file_def create_if_def
  before_colon_def after_colon_def post_dispatch_call_def has_onerror_handler_def
  handlers_at_def onerror_assert_def writeU8_def
  OPCODE_CALL_def OPCODE_IF_def OPCODE_ELSE_def OPCODE_END_def OPCODE_GET_LOCAL_def
  OPCODE_I64_EQ_def OPCODE_I64_NE_def OPCODE_I32_CONST_def OPCODE_I64_CONST_def
  SNAX_ERROR_NO_ACTION_def SNAX_ERROR_ONERROR_def SNAX_COMPILER_ERROR_BASE_def
  name_transfer name_issue name_snax name_onerror writeUleb128.simps encodeSLEB128.simps

text \<open>
  C9 as stated fails: the same set of two action strings, contributed in the two possible
  orders, gives two different bodies.
\<close>

theorem dispatch_depends_on_order_counterexample:
  "set (SnaxActions (example_file [''transfer:on_transfer'', ''issue:on_issue''] []))
     = set (SnaxActions (example_file [''issue:on_issue'', ''transfer:on_transfer''] []))
   \<and> createDispatchFunction string_to_name example_find
         [example_file [''transfer:on_transfer'', ''issue:on_issue''] []]
     \<noteq> createDispatchFunction string_to_name example_find
         [example_file [''issue:on_issue'', ''transfer:on_transfer''] []]"
proof
  show "set (SnaxActions (example_file [''transfer:on_transfer'', ''issue:on_issue''] []))
     = set (SnaxActions (example_file [''issue:on_issue'', ''transfer:on_transfer''] []))"
    by (auto simp: example_file_def)
  show "createDispatchFunction string_to_name example_find
         [example_file [''transfer:on_transfer'', ''issue:on_issue''] []]
     \<noteq> createDispatchFunction string_to_name example_find
         [example_file [''issue:on_issue'', ''transfer:on_transfer''] []]"
    by (simp add: dispatch_eval)
qed

text \<open>
  C1 at the input \<^verbatim>\<open>snax_notify = ["snax::onerror:handle_err"]\<close>, with \<^verbatim>\<open>snax_assert_code\<close> at
  function index 7 and \<^verbatim>\<open>handle_err\<close> at 9. The entry is filed under \<^verbatim>\<open>"snax"\<close> as
  \<^verbatim>\<open>"onerror:handle_err"\<close>, which is not the string \<^verbatim>\<open>"onerror"\<close>; \<^verbatim>\<open>has_onerror_handler\<close>
  stays false and the assertion block is emitted in front of the branch that calls the
  handler.
\<close>

theorem onerror_handler_keeps_assertion:
  "notify_files [example_file [] [''snax::onerror:handle_err'']] (0, {}, [])
     = Inr (1, {''snax::onerror:handle_err''}, [(''snax'', [''onerror:handle_err''])])
   \<and> \<not> has_onerror_handler 1 [(''snax'', [''onerror:handle_err''])]
   \<and> create_notify_dispatch name example_find 7 [example_file [] [''snax::onerror:handle_err'']]
     = Inr ([0x20, 0x00, 0x42] @ encodeSLEB128 (sint (name ''snax'')) @ [0x52, 0x04, 0x40]
            @ onerror_assert name 7
            @ [0x42] @ encodeSLEB128 (sint (name ''snax'')) @ [0x20, 0x01, 0x51, 0x04, 0x40]
            @ [0x42] @ encodeSLEB128 (sint (name ''onerror''))
            @ [0x20, 0x02, 0x51, 0x04, 0x40, 0x20, 0x00, 0x20, 0x01, 0x10, 0x09]
            @ [0x0b, 0x05, 0x0b])"
  by (simp add: create_notify_dispatch_def example_find_def example_file_def create_if_def
      before_colon_def after_colon_def post_dispatch_call_def has_onerror_handler_def
      handlers_at_def writeU8_def writeUleb128.simps
      OPCODE_CALL_def OPCODE_IF_def OPCODE_ELSE_def OPCODE_END_def OPCODE_GET_LOCAL_def
      OPCODE_I64_EQ_def OPCODE_I64_NE_def OPCODE_I64_CONST_def)

section \<open>Init functions\<close>

lemma calculateInitFunctions_file_result:
  assumes "\<forall>F \<in> set Fs. fst F < length (FileSymbols File)
             \<and> isFunctionSymbol (symbols w (FileSymbols File ! fst F))"
  shows "\<exists>w'. calculateInitFunctions_file File Fs w = Inr w'
     \<and> symbols w' = symbols w
     \<and> InitFunctions w' = InitFunctions w
          @ map (\<lambda>F. WasmInitEntry (FileSymbols File ! fst F) (snd F)) Fs
     \<and> errors w' = errors w
          @ map (\<lambda>F. InvalidInitFuncSignature (Sym F))
              (filter (invalid_init_signature w)
                 (map (\<lambda>F. WasmInitEntry (FileSymbols File ! fst F) (snd F)) Fs))"
  using assms
proof (induction Fs arbitrary: w)
  case Nil
  then show ?case by simp
next
  case (Cons F Fs)
  let ?S = "FileSymbols File ! fst F"
  let ?w1 = "(if getFunctionType (symbols w ?S) \<noteq> WasmSignature [] NORESULT
              then error (InvalidInitFuncSignature ?S) w else w)
               \<lparr>InitFunctions := InitFunctions w @ [WasmInitEntry ?S (snd F)]\<rparr>"
  have g: "getFunctionSymbol w File (fst F) = Inr ?S"
    using Cons.prems by (simp add: getFunctionSymbol_def)
  have s1: "symbols ?w1 = symbols w" by (simp add: error_def)
  have "\<forall>F \<in> set Fs. fst F < length (FileSymbols File)
             \<and> isFunctionSymbol (symbols ?w1 (FileSymbols File ! fst F))"
    using Cons.prems s1 by simp
  from Cons.IH[OF this] obtain w' where
    r: "calculateInitFunctions_file File Fs ?w1 = Inr w'" and
    sy: "symbols w' = symbols ?w1" and
    i: "InitFunctions w' = InitFunctions ?w1
          @ map (\<lambda>F. WasmInitEntry (FileSymbols File ! fst F) (snd F)) Fs" and
    e: "errors w' = errors ?w1
          @ map (\<lambda>F. InvalidInitFuncSignature (Sym F))
              (filter (invalid_init_signature ?w1)
                 (map (\<lambda>F. WasmInitEntry (FileSymbols File ! fst F) (snd F)) Fs))"
    by blast
  have inv: "invalid_init_signature ?w1 = invalid_init_signature w"
    by (rule ext) (simp add: invalid_init_signature_def error_def)
  have "calculateInitFunctions_file File (F # Fs) w = Inr w'"
    using g r by simp
  moreover have "InitFunctions w' = InitFunctions w
          @ map (\<lambda>F. WasmInitEntry (FileSymbols File ! fst F) (snd F)) (F # Fs)"
    using i by (simp add: error_def)
  moreover have "errors w' = errors w
          @ map (\<lambda>F. InvalidInitFuncSignature (Sym F))
              (filter (invalid_init_signature w)
                 (map (\<lambda>F. WasmInitEntry (FileSymbols File ! fst F) (snd F)) (F # Fs)))"
    using e unfolding inv by (simp add: error_def invalid_init_signature_def)
  ultimately show ?case using sy s1 by simp
qed

lemma calculateInitFunctions_files_result:
  assumes "init_entries_resolve w Files"
  shows "\<exists>w'. calculateInitFunctions_files Files w = Inr w'
     \<and> symbols w' = symbols w
     \<and> InitFunctions w' = InitFunctions w @ init_entries Files
     \<and> errors w' = errors w
          @ map (\<lambda>F. InvalidInitFuncSignature (Sym F))
              (filter (invalid_init_signature w) (init_entries Files))"
  using assms
proof (induction Files arbitrary: w)
  case Nil
  then show ?case by (simp add: init_entries_def)
next
  case (Cons File Files)
  have "\<forall>F \<in> set (LinkingInitFunctions File). fst F < length (FileSymbols File)
             \<and> isFunctionSymbol (symbols w (FileSymbols File ! fst F))"
    using Cons.prems by (simp add: init_entries_resolve_def)
  from calculateInitFunctions_file_result[OF this] obtain w1 where
    r1: "calculateInitFunctions_file File (LinkingInitFunctions File) w = Inr w1" and
    s1: "symbols w1 = symbols w" and
    i1: "InitFunctions w1 = InitFunctions w
          @ map (\<lambda>F. WasmInitEntry (FileSymbols File ! fst F) (snd F)) (LinkingInitFunctions File)" and
    e1: "errors w1 = errors w
          @ map (\<lambda>F. InvalidInitFuncSignature (Sym F))
              (filter (invalid_init_signature w)
                 (map (\<lambda>F. WasmInitEntry (FileSymbols File ! fst F) (snd F))
                    (LinkingInitFunctions File)))"
    by blast
  have "init_entries_resolve w1 Files"
    using Cons.prems s1 by (simp add: init_entries_resolve_def)
  from Cons.IH[OF this] obtain w' where
    r: "calculateInitFunctions_files Files w1 = Inr w'" and
    sy: "symbols w' = symbols w1" and
    i: "InitFunctions w' = InitFunctions w1 @ init_entries Files" and
    e: "errors w' = errors w1
          @ map (\<lambda>F. InvalidInitFuncSignature (Sym F))
              (filter (invalid_init_signature w1) (init_entries Files))"
    by blast
  have inv: "invalid_init_signature w1 = invalid_init_signature w"
    by (rule ext) (simp add: invalid_init_signature_def s1)
  show ?case
    using r1 r sy s1 i i1 e e1 unfolding inv by (simp add: init_entries_def)
qed

lemma createCtorFunction_calls_result:
  assumes "map (\<lambda>F. FunctionIndex (symbols w (Sym F))) Fs = map Some idxs"
  shows "createCtorFunction_calls w Fs
     = Inr (concat (map (\<lambda>i. writeU8 OPCODE_CALL @ writeUleb128 (unat i)) idxs))"
  using assms
proof (induction Fs arbitrary: idxs)
  case Nil
  then show ?case by simp
next
  case (Cons F Fs)
  then obtain i is' where idxs: "idxs = i # is'" by (cases idxs) auto
  with Cons.prems have a: "FunctionIndex (symbols w (Sym F)) = Some i"
    and b: "map (\<lambda>F. FunctionIndex (symbols w (Sym F))) Fs = map Some is'" by auto
  show ?case using Cons.IH[OF b] a idxs by (simp add: getFunctionIndex_def)
qed

text \<open>
  C6. When every init entry of the linking data names a function symbol of its file,
  \<^verbatim>\<open>calculateInitFunctions\<close> returns; it has reported one error for each collected entry whose
  signature is not \<^verbatim>\<open>() -> ()\<close>, in the order met, and \<^verbatim>\<open>InitFunctions\<close> is the collected
  entries sorted by ascending priority, entries of equal priority in their input order.
  \<^verbatim>\<open>createCtorFunction\<close> then emits the length of the body followed by the body: the local
  count 0, one \<^verbatim>\<open>call\<close> with the function index of each init function in that order, and one
  \<^verbatim>\<open>END\<close>.
\<close>

theorem init_functions_sorted_and_called:
  assumes res: "init_entries_resolve w Files"
  shows "\<exists>w'. calculateInitFunctions Files w = Inr w'
     \<and> symbols w' = symbols w
     \<and> errors w' = errors w
          @ map (\<lambda>F. InvalidInitFuncSignature (Sym F))
              (filter (invalid_init_signature w) (init_entries Files))
     \<and> InitFunctions w' = sort_key Priority (InitFunctions w @ init_entries Files)
     \<and> sorted (map Priority (InitFunctions w'))
     \<and> (\<forall>k. filter (\<lambda>F. Priority F = k) (InitFunctions w')
              = filter (\<lambda>F. Priority F = k) (InitFunctions w @ init_entries Files))
     \<and> (\<forall>idxs. map (\<lambda>F. FunctionIndex (symbols w' (Sym F))) (InitFunctions w') = map Some idxs
          \<longrightarrow> createCtorFunction w'
              = Inr (writeUleb128
                       (length (writeUleb128 0
                          @ concat (map (\<lambda>i. writeU8 OPCODE_CALL @ writeUleb128 (unat i)) idxs)
                          @ writeU8 OPCODE_END))
                     @ writeUleb128 0
                     @ concat (map (\<lambda>i. writeU8 OPCODE_CALL @ writeUleb128 (unat i)) idxs)
                     @ writeU8 OPCODE_END))"
proof -
  from calculateInitFunctions_files_result[OF res] obtain w1 where
    r: "calculateInitFunctions_files Files w = Inr w1" and
    s: "symbols w1 = symbols w" and
    i: "InitFunctions w1 = InitFunctions w @ init_entries Files" and
    e: "errors w1 = errors w
          @ map (\<lambda>F. InvalidInitFuncSignature (Sym F))
              (filter (invalid_init_signature w) (init_entries Files))"
    by blast
  let ?w' = "w1\<lparr>InitFunctions := sort_key Priority (InitFunctions w1)\<rparr>"
  have c: "calculateInitFunctions Files w = Inr ?w'"
    using r by (simp add: calculateInitFunctions_def)
  have ctor: "\<And>idxs. map (\<lambda>F. FunctionIndex (symbols ?w' (Sym F))) (InitFunctions ?w') = map Some idxs
      \<Longrightarrow> createCtorFunction ?w'
              = Inr (writeUleb128
                       (length (writeUleb128 0
                          @ concat (map (\<lambda>i. writeU8 OPCODE_CALL @ writeUleb128 (unat i)) idxs)
                          @ writeU8 OPCODE_END))
                     @ writeUleb128 0
                     @ concat (map (\<lambda>i. writeU8 OPCODE_CALL @ writeUleb128 (unat i)) idxs)
                     @ writeU8 OPCODE_END)"
    using createCtorFunction_calls_result[of ?w' "InitFunctions ?w'"]
    by (simp add: createCtorFunction_def Let_def)
  show ?thesis
    using c s e i ctor by (auto simp: sort_key_stable)
qed


theorem init_functions_sorted_and_called_witness:
  "init_entries_resolve (new_Writer example_init_store) example_init_files
   \<and> (\<exists>w'. calculateInitFunctions example_init_files (new_Writer example_init_store) = Inr w'
         \<and> errors w' = [InvalidInitFuncSignature 1]
         \<and> InitFunctions w' = [WasmInitEntry 1 100, WasmInitEntry 2 100, WasmInitEntry 0 65535]
         \<and> createCtorFunction w' = Inr [8, 0, 0x10, 4, 0x10, 5, 0x10, 3, 0x0b])"
proof -
  let ?w = "new_Writer example_init_store"
  have res: "init_entries_resolve ?w example_init_files"
    by (simp add: init_entries_resolve_def example_init_files_def example_file_def new_Writer_def
        example_init_store_def isFunctionSymbol_def example_symbol_def)
  have ents: "init_entries example_init_files
      = [WasmInitEntry 0 65535, WasmInitEntry 1 100, WasmInitEntry 2 100]"
    by (simp add: init_entries_def example_init_files_def example_file_def)
  from init_functions_sorted_and_called[OF res] obtain w' where
    c: "calculateInitFunctions example_init_files ?w = Inr w'" and
    s: "symbols w' = symbols ?w" and
    e: "errors w' = errors ?w
          @ map (\<lambda>F. InvalidInitFuncSignature (Sym F))
              (filter (invalid_init_signature ?w) (init_entries example_init_files))" and
    i: "InitFunctions w' = sort_key Priority (InitFunctions ?w @ init_entries example_init_files)" and
    ctor: "\<forall>idxs. map (\<lambda>F. FunctionIndex (symbols w' (Sym F))) (InitFunctions w') = map Some idxs
          \<longrightarrow> createCtorFunction w'
              = Inr (writeUleb128
                       (length (writeUleb128 0
                          @ concat (map (\<lambda>i. writeU8 OPCODE_CALL @ writeUleb128 (unat i)) idxs)
                          @ writeU8 OPCODE_END))
                     @ writeUleb128 0
                     @ concat (map (\<lambda>i. writeU8 OPCODE_CALL @ writeUleb128 (unat i)) idxs)
                     @ writeU8 OPCODE_END)"
    by blast
  have i': "InitFunctions w' = [WasmInitEntry 1 100, WasmInitEntry 2 100, WasmInitEntry 0 65535]"
    using i by (simp add: ents new_Writer_def)
  have e': "errors w' = [InvalidInitFuncSignature 1]"
    using e by (simp add: ents new_Writer_def invalid_init_signature_def example_init_store_def
        example_symbol_def)
  have "map (\<lambda>F. FunctionIndex (symbols w' (Sym F))) (InitFunctions w') = map Some [4, 5, 3]"
    by (simp add: i' s new_Writer_def example_init_store_def example_symbol_def)
  from ctor[rule_format, OF this]
  have "createCtorFunction w' = Inr [8, 0, 0x10, 4, 0x10, 5, 0x10, 3, 0x0b]"
    by (simp add: writeUleb128.simps writeU8_def OPCODE_CALL_def OPCODE_END_def)
  then show ?thesis using res c e' i' by blast
qed

section \<open>Imports\<close>

lemma import_condition_kind:
  "import_condition cfg s \<Longrightarrow> isFunctionSymbol s \<or> isGlobalSymbol s"
  by (cases "SymbolKind s")
     (auto simp: import_condition_def isUndefined_def isDataSymbol_def isFunctionSymbol_def
        isGlobalSymbol_def)

lemma function_not_global: "isFunctionSymbol s \<Longrightarrow> \<not> isGlobalSymbol s"
  by (auto simp: isFunctionSymbol_def isGlobalSymbol_def)

lemma calculateImports_loop_result:
  assumes "distinct Ss"
  shows "\<exists>w'. calculateImports_loop cfg Ss w = Inr w'
     \<and> ImportedSymbols w' = ImportedSymbols w @ filter (\<lambda>S. import_condition cfg (symbols w S)) Ss
     \<and> (\<forall>k < length (filter (\<lambda>S. isFunctionSymbol (symbols w S))
                        (filter (\<lambda>S. import_condition cfg (symbols w S)) Ss)).
           symbols w' (filter (\<lambda>S. isFunctionSymbol (symbols w S))
                         (filter (\<lambda>S. import_condition cfg (symbols w S)) Ss) ! k)
           = (symbols w (filter (\<lambda>S. isFunctionSymbol (symbols w S))
                         (filter (\<lambda>S. import_condition cfg (symbols w S)) Ss) ! k))
               \<lparr>FunctionIndex := Some (NumImportedFunctions w + of_nat k)\<rparr>)
     \<and> (\<forall>k < length (filter (\<lambda>S. isGlobalSymbol (symbols w S))
                        (filter (\<lambda>S. import_condition cfg (symbols w S)) Ss)).
           symbols w' (filter (\<lambda>S. isGlobalSymbol (symbols w S))
                         (filter (\<lambda>S. import_condition cfg (symbols w S)) Ss) ! k)
           = (symbols w (filter (\<lambda>S. isGlobalSymbol (symbols w S))
                         (filter (\<lambda>S. import_condition cfg (symbols w S)) Ss) ! k))
               \<lparr>GlobalIndex := Some (NumImportedGlobals w + of_nat k)\<rparr>)
     \<and> NumImportedFunctions w' = NumImportedFunctions w
          + of_nat (length (filter (\<lambda>S. isFunctionSymbol (symbols w S))
                              (filter (\<lambda>S. import_condition cfg (symbols w S)) Ss)))
     \<and> NumImportedGlobals w' = NumImportedGlobals w
          + of_nat (length (filter (\<lambda>S. isGlobalSymbol (symbols w S))
                              (filter (\<lambda>S. import_condition cfg (symbols w S)) Ss)))
     \<and> (\<forall>S. S \<notin> set (filter (\<lambda>S. import_condition cfg (symbols w S)) Ss)
            \<longrightarrow> symbols w' S = symbols w S)"
  using assms
proof (induction Ss arbitrary: w)
  case Nil
  then show ?case by simp
next
  case (Cons S Ss)
  have dist: "distinct Ss" and notin: "S \<notin> set Ss" using Cons.prems by auto
  show ?case
  proof (cases "import_condition cfg (symbols w S)")
    case False
    then have step: "calculateImports_loop cfg (S # Ss) w = calculateImports_loop cfg Ss w"
      by (auto simp: import_condition_def)
    from Cons.IH[OF dist, of w] show ?thesis
      unfolding step using False by simp
  next
    case True
    show ?thesis
    proof (cases "isFunctionSymbol (symbols w S)")
      case isF: True
      let ?w1 = "w\<lparr>ImportedSymbols := ImportedSymbols w @ [S],
             symbols := (symbols w)(S := (symbols w S)\<lparr>FunctionIndex := Some (NumImportedFunctions w)\<rparr>),
             NumImportedFunctions := NumImportedFunctions w + 1\<rparr>"
      have step: "calculateImports_loop cfg (S # Ss) w = calculateImports_loop cfg Ss ?w1"
        using True isF by (auto simp: import_condition_def)
      have same: "\<And>T. T \<in> set Ss \<Longrightarrow> symbols ?w1 T = symbols w T"
        using notin by auto
      have fI: "filter (\<lambda>T. import_condition cfg (symbols ?w1 T)) Ss
              = filter (\<lambda>T. import_condition cfg (symbols w T)) Ss"
        by (rule filter_cong) (use notin in auto)
      let ?I = "filter (\<lambda>T. import_condition cfg (symbols w T)) Ss"
      have sub: "set ?I \<subseteq> set Ss" by auto
      have fF: "filter (\<lambda>T. isFunctionSymbol (symbols ?w1 T)) ?I
              = filter (\<lambda>T. isFunctionSymbol (symbols w T)) ?I"
        by (rule filter_cong) (use notin sub in auto)
      have fG: "filter (\<lambda>T. isGlobalSymbol (symbols ?w1 T)) ?I
              = filter (\<lambda>T. isGlobalSymbol (symbols w T)) ?I"
        by (rule filter_cong) (use notin sub in auto)
      let ?F = "filter (\<lambda>T. isFunctionSymbol (symbols w T)) ?I"
      let ?G = "filter (\<lambda>T. isGlobalSymbol (symbols w T)) ?I"
      from Cons.IH[OF dist, of ?w1] obtain w' where
        r: "calculateImports_loop cfg Ss ?w1 = Inr w'" and
        imp: "ImportedSymbols w' = ImportedSymbols ?w1 @ ?I" and
        fidx: "\<forall>k < length ?F. symbols w' (?F ! k)
                 = (symbols ?w1 (?F ! k))\<lparr>FunctionIndex := Some (NumImportedFunctions ?w1 + of_nat k)\<rparr>" and
        gidx: "\<forall>k < length ?G. symbols w' (?G ! k)
                 = (symbols ?w1 (?G ! k))\<lparr>GlobalIndex := Some (NumImportedGlobals ?w1 + of_nat k)\<rparr>" and
        nf: "NumImportedFunctions w' = NumImportedFunctions ?w1 + of_nat (length ?F)" and
        ng: "NumImportedGlobals w' = NumImportedGlobals ?w1 + of_nat (length ?G)" and
        frame: "\<forall>T. T \<notin> set ?I \<longrightarrow> symbols w' T = symbols ?w1 T"
        unfolding fI fF fG by blast
      have inF: "\<And>k. k < length ?F \<Longrightarrow> ?F ! k \<in> set Ss"
        by (metis (no_types, lifting) filter_is_subset nth_mem subsetD)
      have inG: "\<And>k. k < length ?G \<Longrightarrow> ?G ! k \<in> set Ss"
        by (metis (no_types, lifting) filter_is_subset nth_mem subsetD)
      have SnotI: "S \<notin> set ?I" using notin by simp
      have c1: "ImportedSymbols w' = ImportedSymbols w
                  @ filter (\<lambda>T. import_condition cfg (symbols w T)) (S # Ss)"
        using imp True by simp
      have c2: "\<forall>k < length (S # ?F). symbols w' ((S # ?F) ! k)
                 = (symbols w ((S # ?F) ! k))\<lparr>FunctionIndex := Some (NumImportedFunctions w + of_nat k)\<rparr>"
      proof (intro allI impI)
        fix k assume k: "k < length (S # ?F)"
        show "symbols w' ((S # ?F) ! k)
                 = (symbols w ((S # ?F) ! k))\<lparr>FunctionIndex := Some (NumImportedFunctions w + of_nat k)\<rparr>"
        proof (cases k)
          case 0
          then show ?thesis using frame SnotI by simp
        next
          case (Suc j)
          then have j: "j < length ?F" using k by simp
          have "symbols ?w1 (?F ! j) = symbols w (?F ! j)" using same inF[OF j] by blast
          then show ?thesis using fidx j Suc by (simp add: add.assoc)
        qed
      qed
      have c3: "\<forall>k < length ?G. symbols w' (?G ! k)
                 = (symbols w (?G ! k))\<lparr>GlobalIndex := Some (NumImportedGlobals w + of_nat k)\<rparr>"
      proof (intro allI impI)
        fix k assume k: "k < length ?G"
        have "symbols ?w1 (?G ! k) = symbols w (?G ! k)" using same inG[OF k] by blast
        then show "symbols w' (?G ! k)
                 = (symbols w (?G ! k))\<lparr>GlobalIndex := Some (NumImportedGlobals w + of_nat k)\<rparr>"
          using gidx k by simp
      qed
      have c4: "NumImportedFunctions w' = NumImportedFunctions w + of_nat (length (S # ?F))"
        using nf by simp
      have c5: "NumImportedGlobals w' = NumImportedGlobals w + of_nat (length ?G)"
        using ng by simp
      have c6: "\<forall>T. T \<notin> set (S # ?I) \<longrightarrow> symbols w' T = symbols w T"
        using frame by auto
      show ?thesis
        unfolding step using r c1 c2 c3 c4 c5 c6 True isF function_not_global[OF isF] by simp
    next
      case notF: False
      then have isG: "isGlobalSymbol (symbols w S)" using import_condition_kind[OF True] by simp
      let ?w1 = "w\<lparr>ImportedSymbols := ImportedSymbols w @ [S],
             symbols := (symbols w)(S := (symbols w S)\<lparr>GlobalIndex := Some (NumImportedGlobals w)\<rparr>),
             NumImportedGlobals := NumImportedGlobals w + 1\<rparr>"
      have step: "calculateImports_loop cfg (S # Ss) w = calculateImports_loop cfg Ss ?w1"
        using True notF isG by (auto simp: import_condition_def)
      have same: "\<And>T. T \<in> set Ss \<Longrightarrow> symbols ?w1 T = symbols w T"
        using notin by auto
      have fI: "filter (\<lambda>T. import_condition cfg (symbols ?w1 T)) Ss
              = filter (\<lambda>T. import_condition cfg (symbols w T)) Ss"
        by (rule filter_cong) (use notin in auto)
      let ?I = "filter (\<lambda>T. import_condition cfg (symbols w T)) Ss"
      have sub: "set ?I \<subseteq> set Ss" by auto
      have fF: "filter (\<lambda>T. isFunctionSymbol (symbols ?w1 T)) ?I
              = filter (\<lambda>T. isFunctionSymbol (symbols w T)) ?I"
        by (rule filter_cong) (use notin sub in auto)
      have fG: "filter (\<lambda>T. isGlobalSymbol (symbols ?w1 T)) ?I
              = filter (\<lambda>T. isGlobalSymbol (symbols w T)) ?I"
        by (rule filter_cong) (use notin sub in auto)
      let ?F = "filter (\<lambda>T. isFunctionSymbol (symbols w T)) ?I"
      let ?G = "filter (\<lambda>T. isGlobalSymbol (symbols w T)) ?I"
      from Cons.IH[OF dist, of ?w1] obtain w' where
        r: "calculateImports_loop cfg Ss ?w1 = Inr w'" and
        imp: "ImportedSymbols w' = ImportedSymbols ?w1 @ ?I" and
        fidx: "\<forall>k < length ?F. symbols w' (?F ! k)
                 = (symbols ?w1 (?F ! k))\<lparr>FunctionIndex := Some (NumImportedFunctions ?w1 + of_nat k)\<rparr>" and
        gidx: "\<forall>k < length ?G. symbols w' (?G ! k)
                 = (symbols ?w1 (?G ! k))\<lparr>GlobalIndex := Some (NumImportedGlobals ?w1 + of_nat k)\<rparr>" and
        nf: "NumImportedFunctions w' = NumImportedFunctions ?w1 + of_nat (length ?F)" and
        ng: "NumImportedGlobals w' = NumImportedGlobals ?w1 + of_nat (length ?G)" and
        frame: "\<forall>T. T \<notin> set ?I \<longrightarrow> symbols w' T = symbols ?w1 T"
        unfolding fI fF fG by blast
      have inF: "\<And>k. k < length ?F \<Longrightarrow> ?F ! k \<in> set Ss"
        by (metis (no_types, lifting) filter_is_subset nth_mem subsetD)
      have inG: "\<And>k. k < length ?G \<Longrightarrow> ?G ! k \<in> set Ss"
        by (metis (no_types, lifting) filter_is_subset nth_mem subsetD)
      have SnotI: "S \<notin> set ?I" using notin by simp
      have c1: "ImportedSymbols w' = ImportedSymbols w
                  @ filter (\<lambda>T. import_condition cfg (symbols w T)) (S # Ss)"
        using imp True by simp
      have c2: "\<forall>k < length (S # ?G). symbols w' ((S # ?G) ! k)
                 = (symbols w ((S # ?G) ! k))\<lparr>GlobalIndex := Some (NumImportedGlobals w + of_nat k)\<rparr>"
      proof (intro allI impI)
        fix k assume k: "k < length (S # ?G)"
        show "symbols w' ((S # ?G) ! k)
                 = (symbols w ((S # ?G) ! k))\<lparr>GlobalIndex := Some (NumImportedGlobals w + of_nat k)\<rparr>"
        proof (cases k)
          case 0
          then show ?thesis using frame SnotI by simp
        next
          case (Suc j)
          then have j: "j < length ?G" using k by simp
          have "symbols ?w1 (?G ! j) = symbols w (?G ! j)" using same inG[OF j] by blast
          then show ?thesis using gidx j Suc by (simp add: add.assoc)
        qed
      qed
      have c3: "\<forall>k < length ?F. symbols w' (?F ! k)
                 = (symbols w (?F ! k))\<lparr>FunctionIndex := Some (NumImportedFunctions w + of_nat k)\<rparr>"
      proof (intro allI impI)
        fix k assume k: "k < length ?F"
        have "symbols ?w1 (?F ! k) = symbols w (?F ! k)" using same inF[OF k] by blast
        then show "symbols w' (?F ! k)
                 = (symbols w (?F ! k))\<lparr>FunctionIndex := Some (NumImportedFunctions w + of_nat k)\<rparr>"
          using fidx k by simp
      qed
      have c4: "NumImportedGlobals w' = NumImportedGlobals w + of_nat (length (S # ?G))"
        using ng by simp
      have c5: "NumImportedFunctions w' = NumImportedFunctions w + of_nat (length ?F)"
        using nf by simp
      have c6: "\<forall>T. T \<notin> set (S # ?I) \<longrightarrow> symbols w' T = symbols w T"
        using frame by auto
      show ?thesis
        unfolding step using r c1 c2 c3 c4 c5 c6 True notF isG by simp
    qed
  qed
qed


text \<open>
  C2. Run on a writer that has imported nothing yet, over a symbol vector that holds each
  symbol once, \<^verbatim>\<open>calculateImports\<close> returns, and \<^verbatim>\<open>ImportedSymbols\<close> is exactly the symbols
  that meet the import condition of the specification, in the order of the vector. Every
  imported symbol is a function or a global symbol; the \<open>k\<close>-th imported function has
  function index \<open>k\<close>, the \<open>k\<close>-th imported global has global index \<open>k\<close>, the two counters
  hold the two totals, and no other symbol object is changed.
\<close>

theorem calculateImports_selects_and_numbers:
  assumes "distinct getSymbols" and "ImportedSymbols w = []"
    and "NumImportedFunctions w = 0" and "NumImportedGlobals w = 0"
  shows "\<exists>w'. calculateImports cfg getSymbols w = Inr w'
     \<and> ImportedSymbols w' = filter (\<lambda>S. import_condition cfg (symbols w S)) getSymbols
     \<and> (\<forall>k < length (filter (\<lambda>S. isFunctionSymbol (symbols w S)) (ImportedSymbols w')).
           FunctionIndex (symbols w' (filter (\<lambda>S. isFunctionSymbol (symbols w S)) (ImportedSymbols w') ! k))
             = Some (of_nat k))
     \<and> (\<forall>k < length (filter (\<lambda>S. isGlobalSymbol (symbols w S)) (ImportedSymbols w')).
           GlobalIndex (symbols w' (filter (\<lambda>S. isGlobalSymbol (symbols w S)) (ImportedSymbols w') ! k))
             = Some (of_nat k))
     \<and> (\<forall>S \<in> set (ImportedSymbols w').
           isFunctionSymbol (symbols w S) \<noteq> isGlobalSymbol (symbols w S))
     \<and> NumImportedFunctions w'
           = of_nat (length (filter (\<lambda>S. isFunctionSymbol (symbols w S)) (ImportedSymbols w')))
     \<and> NumImportedGlobals w'
           = of_nat (length (filter (\<lambda>S. isGlobalSymbol (symbols w S)) (ImportedSymbols w')))
     \<and> (\<forall>S. S \<notin> set (ImportedSymbols w') \<longrightarrow> symbols w' S = symbols w S)"
proof -
  let ?I = "filter (\<lambda>S. import_condition cfg (symbols w S)) getSymbols"
  let ?F = "filter (\<lambda>S. isFunctionSymbol (symbols w S)) ?I"
  let ?G = "filter (\<lambda>S. isGlobalSymbol (symbols w S)) ?I"
  from calculateImports_loop_result[OF assms(1), of cfg w] obtain w' where
    r: "calculateImports_loop cfg getSymbols w = Inr w'" and
    imp: "ImportedSymbols w' = ImportedSymbols w @ ?I" and
    fidx: "\<forall>k < length ?F. symbols w' (?F ! k)
             = (symbols w (?F ! k))\<lparr>FunctionIndex := Some (NumImportedFunctions w + of_nat k)\<rparr>" and
    gidx: "\<forall>k < length ?G. symbols w' (?G ! k)
             = (symbols w (?G ! k))\<lparr>GlobalIndex := Some (NumImportedGlobals w + of_nat k)\<rparr>" and
    nf: "NumImportedFunctions w' = NumImportedFunctions w + of_nat (length ?F)" and
    ng: "NumImportedGlobals w' = NumImportedGlobals w + of_nat (length ?G)" and
    frame: "\<forall>S. S \<notin> set ?I \<longrightarrow> symbols w' S = symbols w S"
    by blast
  have imp': "ImportedSymbols w' = ?I" using imp assms(2) by simp
  have kinds: "\<forall>S \<in> set ?I. isFunctionSymbol (symbols w S) \<noteq> isGlobalSymbol (symbols w S)"
    using import_condition_kind function_not_global by auto
  have f': "\<forall>k < length ?F. FunctionIndex (symbols w' (?F ! k)) = Some (of_nat k)"
    using fidx assms(3) by simp
  have g': "\<forall>k < length ?G. GlobalIndex (symbols w' (?G ! k)) = Some (of_nat k)"
    using gidx assms(4) by simp
  show ?thesis
    unfolding calculateImports_def imp'
    using r imp' kinds f' g' nf ng frame assms(3,4) by simp
qed

theorem calculateImports_selects_and_numbers_witness:
  "distinct [0, 1, 2, 3, 4, 5, 6 :: nat]
   \<and> ImportedSymbols (new_Writer example_import_store) = []
   \<and> NumImportedFunctions (new_Writer example_import_store) = 0
   \<and> NumImportedGlobals (new_Writer example_import_store) = 0
   \<and> (\<exists>w'. calculateImports example_config [0, 1, 2, 3, 4, 5, 6] (new_Writer example_import_store) = Inr w'
         \<and> ImportedSymbols w' = [0, 3, 5]
         \<and> FunctionIndex (symbols w' 0) = Some 0
         \<and> FunctionIndex (symbols w' 5) = Some 1
         \<and> GlobalIndex (symbols w' 3) = Some 0
         \<and> NumImportedFunctions w' = 2 \<and> NumImportedGlobals w' = 1)"
proof -
  let ?w = "new_Writer example_import_store"
  have h: "distinct [0, 1, 2, 3, 4, 5, 6 :: nat]" "ImportedSymbols ?w = []"
    "NumImportedFunctions ?w = 0" "NumImportedGlobals ?w = 0"
    by (simp_all add: new_Writer_def)
  have I: "filter (\<lambda>S. import_condition example_config (symbols ?w S)) [0, 1, 2, 3, 4, 5, 6] = [0, 3, 5]"
    by (simp add: import_condition_def new_Writer_def example_import_store_def example_symbol_def
        example_config_def isUndefined_def isDataSymbol_def)
  have F: "filter (\<lambda>S. isFunctionSymbol (symbols ?w S)) [0, 3, 5] = [0, 5]"
    by (simp add: new_Writer_def example_import_store_def example_symbol_def isFunctionSymbol_def)
  have G: "filter (\<lambda>S. isGlobalSymbol (symbols ?w S)) [0, 3, 5] = [3]"
    by (simp add: new_Writer_def example_import_store_def example_symbol_def isGlobalSymbol_def)
  from calculateImports_selects_and_numbers[OF h, of example_config] obtain w' where
    r: "calculateImports example_config [0, 1, 2, 3, 4, 5, 6] ?w = Inr w'" and
    imp0: "ImportedSymbols w'
         = filter (\<lambda>S. import_condition example_config (symbols ?w S)) [0, 1, 2, 3, 4, 5, 6]" and
    fidx0: "\<forall>k < length (filter (\<lambda>S. isFunctionSymbol (symbols ?w S)) (ImportedSymbols w')).
           FunctionIndex (symbols w' (filter (\<lambda>S. isFunctionSymbol (symbols ?w S)) (ImportedSymbols w') ! k))
             = Some (of_nat k)" and
    gidx0: "\<forall>k < length (filter (\<lambda>S. isGlobalSymbol (symbols ?w S)) (ImportedSymbols w')).
           GlobalIndex (symbols w' (filter (\<lambda>S. isGlobalSymbol (symbols ?w S)) (ImportedSymbols w') ! k))
             = Some (of_nat k)" and
    nf0: "NumImportedFunctions w'
           = of_nat (length (filter (\<lambda>S. isFunctionSymbol (symbols ?w S)) (ImportedSymbols w')))" and
    ng0: "NumImportedGlobals w'
           = of_nat (length (filter (\<lambda>S. isGlobalSymbol (symbols ?w S)) (ImportedSymbols w')))"
    by blast
  have imp: "ImportedSymbols w' = [0, 3, 5]" using imp0 unfolding I .
  have fidx: "\<forall>k < length [0, 5 :: nat]. FunctionIndex (symbols w' ([0, 5] ! k)) = Some (of_nat k)"
    using fidx0 unfolding imp F .
  have gidx: "\<forall>k < length [3 :: nat]. GlobalIndex (symbols w' ([3] ! k)) = Some (of_nat k)"
    using gidx0 unfolding imp G .
  have nf: "NumImportedFunctions w' = 2" using nf0 unfolding imp F by simp
  have ng: "NumImportedGlobals w' = 1" using ng0 unfolding imp G by simp
  have "FunctionIndex (symbols w' 0) = Some 0" using fidx[rule_format, of 0] by simp
  moreover have "FunctionIndex (symbols w' 5) = Some 1" using fidx[rule_format, of 1] by simp
  moreover have "GlobalIndex (symbols w' 3) = Some 0" using gidx[rule_format, of 0] by simp
  ultimately show ?thesis using h r imp nf ng by simp
qed

section \<open>Memory layout\<close>

text \<open>
  C3. A link that is not relocatable, with \<^verbatim>\<open>GlobalBase\<close> 1024, \<^verbatim>\<open>ZStackSize\<close> 4096, no
  initial or maximum memory set and the stack after the data, over one object file whose
  only segment is live, 100 bytes long and aligned to 8: \<^verbatim>\<open>layoutMemory\<close> returns with one
  output segment of 100 bytes at \<^verbatim>\<open>StartVA\<close> 1024, \<^verbatim>\<open>__data_end\<close> at 1124, the stack based at
  the 16-aligned 1136 so that the initial value of \<^verbatim>\<open>__stack_pointer\<close> is 1136 + 4096 = 5232,
  \<^verbatim>\<open>__heap_base\<close> at 5232, one memory page, and no error reported.
\<close>

theorem layoutMemory_data_stack_heap:
  assumes cfg: "\<not> Relocatable cfg" "\<not> StackFirst cfg" "GlobalBase cfg = 1024"
      "ZStackSize cfg = 4096" "InitialMemory cfg = 0" "MaxMemory cfg = 0"
    and seg: "FileSegments File = [Seg]" "Live Seg" "SegmentAlignment Seg = 8" "SegmentSize Seg = 100"
    and w: "Segments w = []" "StackPointer w = Some sp" "DataEnd w = Some de"
      "HeapBase w = Some hb" "de \<noteq> hb"
  shows "\<exists>w'. layoutMemory cfg [File] w = Inr w'
     \<and> map Name (Segments w') = [getOutputDataSegmentName cfg (SegmentName Seg)]
     \<and> map StartVA (Segments w') = [1024]
     \<and> map Size (Segments w') = [100]
     \<and> VirtualAddress (symbols w' de) = 1124
     \<and> alignTo 1124 kStackAlignment = 1136
     \<and> InitValue (symbols w' sp) = 1136 + 4096
     \<and> InitValue (symbols w' sp) = 5232
     \<and> VirtualAddress (symbols w' hb) = 5232
     \<and> NumMemoryPages w' = 1
     \<and> errors w' = errors w"
proof -
  let ?wa = "if SnaxABI File \<noteq> [] then w\<lparr>abis := abis w @ [SnaxABI File]\<rparr> else w"
  let ?n = "getOutputDataSegmentName cfg (SegmentName Seg)"
  let ?S = "\<lparr>Name = ?n, SegmentIndex = 0, Alignment = 8, Size = 100, StartVA = 0,
            InputSegments = [Seg\<lparr>OutputSegmentOffset := 0\<rparr>]\<rparr>"
  have add: "addInputSegment Seg \<lparr>Name = ?n, SegmentIndex = 0, Alignment = 0,
      Size = 0, StartVA = 0, InputSegments = []\<rparr> = Inr ?S"
    using seg by (simp add: addInputSegment_def alignTo_def uint32_def)
  have cos: "createOutputSegments cfg [File] w = Inr (?wa\<lparr>Segments := [?S]\<rparr>)"
    using seg w add by (simp add: Let_def)
  let ?w1 = "?wa\<lparr>Segments := [?S]\<rparr>"
  have ptrs: "StackPointer ?w1 = Some sp" "DataEnd ?w1 = Some de" "HeapBase ?w1 = Some hb"
    "errors ?w1 = errors w"
    using w by simp_all
  have ls: "layoutSegments [?S] 1024 = Inr ([?S\<lparr>StartVA := 1024\<rparr>], 1124)"
    by (simp add: alignTo_def uint32_def)
  show ?thesis
    unfolding layoutMemory_def cos
    using cfg ptrs w(5) ls
    by (cases "DsoHandle ?w1")
       (simp_all add: PlaceStack_def setVirtualAddress_def layoutMemory_pages_def alignTo_def
          uint32_def kStackAlignment_def WasmPageSize_def Let_def)
qed


theorem layoutMemory_data_stack_heap_witness:
  "\<not> Relocatable example_config \<and> \<not> StackFirst example_config
   \<and> GlobalBase example_config = 1024 \<and> ZStackSize example_config = 4096
   \<and> InitialMemory example_config = 0 \<and> MaxMemory example_config = 0
   \<and> map (\<lambda>Seg. (Live Seg, SegmentAlignment Seg, SegmentSize Seg))
         (FileSegments (hd example_layout_files)) = [(True, 8, 100)]
   \<and> Segments example_layout_writer = []
   \<and> (\<exists>w'. layoutMemory example_config example_layout_files example_layout_writer = Inr w'
         \<and> map StartVA (Segments w') = [1024]
         \<and> map Name (Segments w') = [''.data'']
         \<and> VirtualAddress (symbols w' 1) = 1124
         \<and> InitValue (symbols w' 0) = 5232
         \<and> VirtualAddress (symbols w' 2) = 5232
         \<and> NumMemoryPages w' = 1
         \<and> errors w' = [])"
proof -
  let ?Seg = "\<lparr>Live = True, Relocations = [], SegmentName = ''.data.table'',
               SegmentAlignment = 8, SegmentSize = 100, OutputSegmentOffset = 0\<rparr>"
  let ?File = "(example_file [] [])\<lparr>FileSegments := [?Seg]\<rparr>"
  have files: "example_layout_files = [?File]" by (simp add: example_layout_files_def)
  have cfg: "\<not> Relocatable example_config" "\<not> StackFirst example_config"
    "GlobalBase example_config = 1024" "ZStackSize example_config = 4096"
    "InitialMemory example_config = 0" "MaxMemory example_config = 0"
    by (simp_all add: example_config_def)
  have seg: "FileSegments ?File = [?Seg]" "Live ?Seg" "SegmentAlignment ?Seg = 8"
    "SegmentSize ?Seg = 100"
    by simp_all
  have w: "Segments example_layout_writer = []" "StackPointer example_layout_writer = Some 0"
    "DataEnd example_layout_writer = Some 1" "HeapBase example_layout_writer = Some 2"
    "(1::nat) \<noteq> 2" "errors example_layout_writer = []"
    by (simp_all add: example_layout_writer_def new_Writer_def)
  from layoutMemory_data_stack_heap[OF cfg seg w(1-5)] obtain w' where
    r: "layoutMemory example_config [?File] example_layout_writer = Inr w'" and
    n0: "map Name (Segments w') = [getOutputDataSegmentName example_config (SegmentName ?Seg)]" and
    p: "map StartVA (Segments w') = [1024]" "VirtualAddress (symbols w' 1) = 1124"
       "InitValue (symbols w' 0) = 5232" "VirtualAddress (symbols w' 2) = 5232"
       "NumMemoryPages w' = 1" "errors w' = errors example_layout_writer"
    by (elim exE conjE)
  have n: "map Name (Segments w') = [''.data'']"
    using n0 by (simp add: getOutputDataSegmentName_def startswith_def example_config_def)
  have s: "map (\<lambda>Seg. (Live Seg, SegmentAlignment Seg, SegmentSize Seg))
         (FileSegments (hd [?File])) = [(True, 8, 100)]"
    by simp
  have e: "errors w' = []" using p(6) w(6) by simp
  show ?thesis
    unfolding files
    by (intro conjI exI[of _ w'] cfg s w(1) r p(1-5) n e)
qed

section \<open>Exports\<close>















section \<open>Indirect functions\<close>

lemma HandleRelocs_loop_append:
  "HandleRelocs_loop (xs @ ys) File n w =
     (case HandleRelocs_loop xs File n w of
        Inl e \<Rightarrow> Inl e
      | Inr (F1, n1, w1) \<Rightarrow> HandleRelocs_loop ys F1 n1 w1)"
  by (induction xs File n w rule: HandleRelocs_loop.induct)
     (auto split: sum.splits prod.splits)

lemma HandleRelocs_chunks_flat:
  "HandleRelocs_chunks Cs File n w = HandleRelocs_loop (concat (map live_relocs Cs)) File n w"
proof (induction Cs arbitrary: File n w)
  case Nil
  then show ?case by simp
next
  case (Cons C Cs)
  show ?case
    by (auto simp: HandleRelocs_def live_relocs_def HandleRelocs_loop_append Cons.IH
        split: sum.splits prod.splits)
qed

lemma table_inv_assign:
  assumes inv: "table_inv n w"
    and none: "TableIndex (symbols w S) = None"
    and fidx: "FunctionIndex (symbols w S) \<noteq> None"
  shows "table_inv (n + 1)
           (w\<lparr>symbols := (symbols w)(S := (symbols w S)\<lparr>TableIndex := Some n\<rparr>),
              IndirectFunctions := IndirectFunctions w @ [S]\<rparr>)"
proof -
  have notin: "S \<notin> set (IndirectFunctions w)"
  proof
    assume "S \<in> set (IndirectFunctions w)"
    then obtain k where "k < length (IndirectFunctions w)" "IndirectFunctions w ! k = S"
      by (auto simp: in_set_conv_nth)
    with inv have "TableIndex (symbols w S) = Some (1 + of_nat k)"
      unfolding table_inv_def by blast
    with none show False by simp
  qed
  have n: "n = 1 + of_nat (length (IndirectFunctions w))"
    using inv unfolding table_inv_def by blast
  have old: "TableIndex (symbols w (IndirectFunctions w ! k)) = Some (1 + of_nat k)
             \<and> FunctionIndex (symbols w (IndirectFunctions w ! k)) \<noteq> None
             \<and> IndirectFunctions w ! k \<noteq> S"
    if "k < length (IndirectFunctions w)" for k
    using inv that notin unfolding table_inv_def by (metis nth_mem)
  have others: "S' \<in> set (IndirectFunctions w)" if "TableIndex (symbols w S') \<noteq> None" for S'
    using inv that unfolding table_inv_def by blast
  have dist: "distinct (IndirectFunctions w)"
    using inv unfolding table_inv_def by blast
  let ?w = "w\<lparr>symbols := (symbols w)(S := (symbols w S)\<lparr>TableIndex := Some n\<rparr>),
              IndirectFunctions := IndirectFunctions w @ [S]\<rparr>"
  have c1: "distinct (IndirectFunctions ?w)"
    using dist notin by simp
  have c2: "TableIndex (symbols ?w (IndirectFunctions ?w ! k)) = Some (1 + of_nat k)
            \<and> FunctionIndex (symbols ?w (IndirectFunctions ?w ! k)) \<noteq> None"
    if "k < length (IndirectFunctions ?w)" for k
  proof -
    from that consider "k < length (IndirectFunctions w)" | "k = length (IndirectFunctions w)"
      by fastforce
    then show ?thesis
    proof cases
      case 1
      then show ?thesis using old[OF 1] by (simp add: nth_append)
    next
      case 2
      then show ?thesis using n fidx by (simp add: nth_append)
    qed
  qed
  have c3: "S' \<in> set (IndirectFunctions ?w)" if "TableIndex (symbols ?w S') \<noteq> None" for S'
    using others[of S'] that by (cases "S' = S") simp_all
  have c4: "n + 1 = 1 + of_nat (length (IndirectFunctions ?w))"
    using n by simp
  show ?thesis
    unfolding table_inv_def using c1 c2 c3 c4 by blast
qed

lemma symbols_kept_assign:
  assumes "TableIndex (symbols w S) = None"
  shows "symbols_kept w
           (w\<lparr>symbols := (symbols w)(S := (symbols w S)\<lparr>TableIndex := Some n\<rparr>),
              IndirectFunctions := IndirectFunctions w @ [S]\<rparr>)"
  using assms unfolding symbols_kept_def by simp

lemma symbols_kept_refl: "symbols_kept w w"
  unfolding symbols_kept_def by simp

lemma symbols_kept_trans:
  "symbols_kept w w1 \<Longrightarrow> symbols_kept w1 w2 \<Longrightarrow> symbols_kept w w2"
  unfolding symbols_kept_def by simp

lemma file_kept_refl: "file_kept File File"
  unfolding file_kept_def by simp

lemma file_kept_trans:
  "file_kept F F1 \<Longrightarrow> file_kept F1 F2 \<Longrightarrow> file_kept F F2"
  unfolding file_kept_def by simp

lemma registerType_keeps_symbols:
  assumes "registerType Sig w = (i, w')"
  shows "symbols w' = symbols w \<and> IndirectFunctions w' = IndirectFunctions w
         \<and> errors w' = errors w"
  using assms unfolding registerType_def by (auto split: option.splits)

lemma table_inv_registerType:
  assumes "registerType Sig w = (i, w')" "table_inv n w"
  shows "table_inv n w' \<and> symbols_kept w w'"
  using registerType_keeps_symbols[OF assms(1)] assms(2)
  unfolding table_inv_def symbols_kept_def by simp

lemma reloc_wf_kept:
  assumes "reloc_wf w File R" "file_kept File File'" "symbols_kept w w'"
  shows "reloc_wf w' File' R"
  using assms unfolding reloc_wf_def file_kept_def symbols_kept_def isFunctionSymbol_def
  by simp


lemma HandleRelocs_loop_continue:
  assumes eq: "HandleRelocs_loop (R # rs) File n w = HandleRelocs_loop rs File1 n1 w1"
    and rest: "\<exists>File' n' w'. HandleRelocs_loop rs File1 n1 w1 = Inr (File', n', w')
                 \<and> table_inv n' w' \<and> file_kept File1 File' \<and> symbols_kept w1 w'
                 \<and> (\<forall>R\<in>set rs. is_table_reloc R
                        \<longrightarrow> FunctionIndex (symbols w1 (reloc_target File1 R)) \<noteq> None
                        \<longrightarrow> TableIndex (symbols w' (reloc_target File1 R)) \<noteq> None)"
    and fk: "file_kept File File1"
    and sk: "symbols_kept w w1"
    and head: "is_table_reloc R \<Longrightarrow> FunctionIndex (symbols w (reloc_target File R)) \<noteq> None
                 \<Longrightarrow> TableIndex (symbols w1 (reloc_target File R)) \<noteq> None"
  shows "\<exists>File' n' w'. HandleRelocs_loop (R # rs) File n w = Inr (File', n', w')
           \<and> table_inv n' w' \<and> file_kept File File' \<and> symbols_kept w w'
           \<and> (\<forall>R\<in>set (R # rs). is_table_reloc R
                  \<longrightarrow> FunctionIndex (symbols w (reloc_target File R)) \<noteq> None
                  \<longrightarrow> TableIndex (symbols w' (reloc_target File R)) \<noteq> None)"
proof -
  from rest obtain File' n' w' where
    r: "HandleRelocs_loop rs File1 n1 w1 = Inr (File', n', w')"
    and inv: "table_inv n' w'" and fk': "file_kept File1 File'" and sk': "symbols_kept w1 w'"
    and handled: "\<And>R'. R' \<in> set rs \<Longrightarrow> is_table_reloc R'
                 \<Longrightarrow> FunctionIndex (symbols w1 (reloc_target File1 R')) \<noteq> None
                 \<Longrightarrow> TableIndex (symbols w' (reloc_target File1 R')) \<noteq> None"
    by blast
  have tgt: "reloc_target File1 R' = reloc_target File R'" for R'
    using fk unfolding reloc_target_def file_kept_def by simp
  have fidx: "FunctionIndex (symbols w1 S) = FunctionIndex (symbols w S)" for S
    using sk unfolding symbols_kept_def by simp
  have keep: "TableIndex (symbols w' S) \<noteq> None" if "TableIndex (symbols w1 S) \<noteq> None" for S
    using sk' that unfolding symbols_kept_def by simp
  have all: "TableIndex (symbols w' (reloc_target File R')) \<noteq> None"
    if "R' \<in> set (R # rs)" "is_table_reloc R'"
      "FunctionIndex (symbols w (reloc_target File R')) \<noteq> None" for R'
  proof (cases "R' = R")
    case True
    then show ?thesis using head that keep by simp
  next
    case False
    then have "R' \<in> set rs" using that by simp
    then show ?thesis using handled[of R'] that tgt fidx by simp
  qed
  have res: "HandleRelocs_loop (R # rs) File n w = Inr (File', n', w')"
    using eq r by simp
  show ?thesis
    by (intro exI[of _ File'] exI[of _ n'] exI[of _ w'] conjI ballI impI res inv
          file_kept_trans[OF fk fk'] symbols_kept_trans[OF sk sk'] all)
qed

lemma HandleRelocs_loop_result:
  assumes "table_inv n w" "\<forall>R\<in>set rs. reloc_wf w File R"
  shows "\<exists>File' n' w'. HandleRelocs_loop rs File n w = Inr (File', n', w')
           \<and> table_inv n' w' \<and> file_kept File File' \<and> symbols_kept w w'
           \<and> (\<forall>R\<in>set rs. is_table_reloc R
                  \<longrightarrow> FunctionIndex (symbols w (reloc_target File R)) \<noteq> None
                  \<longrightarrow> TableIndex (symbols w' (reloc_target File R)) \<noteq> None)"
  using assms
proof (induction rs arbitrary: File n w)
  case Nil
  then show ?case by (simp add: file_kept_refl symbols_kept_refl)
next
  case (Cons R rs)
  have wfR: "reloc_wf w File R" and wfrs: "\<forall>R'\<in>set rs. reloc_wf w File R'"
    using Cons.prems(2) by simp_all
  consider (skip) "is_table_reloc R"
      "TableIndex (symbols w (reloc_target File R)) \<noteq> None
       \<or> FunctionIndex (symbols w (reloc_target File R)) = None"
    | (assign) "is_table_reloc R" "TableIndex (symbols w (reloc_target File R)) = None"
      "FunctionIndex (symbols w (reloc_target File R)) \<noteq> None"
    | (type) "\<not> is_table_reloc R" "RelocKind R = R_WEBASSEMBLY_TYPE_INDEX_LEB"
    | (other) "\<not> is_table_reloc R" "RelocKind R \<noteq> R_WEBASSEMBLY_TYPE_INDEX_LEB"
    by blast
  then show ?case
  proof cases
    case skip
    have sym: "getFunctionSymbol w File (RelocIndex R) = Inr (reloc_target File R)"
      using wfR skip(1) unfolding reloc_wf_def getFunctionSymbol_def reloc_target_def by simp
    have eq: "HandleRelocs_loop (R # rs) File n w = HandleRelocs_loop rs File n w"
      using skip sym unfolding is_table_reloc_def by auto
    show ?thesis
      by (rule HandleRelocs_loop_continue[OF eq Cons.IH[OF Cons.prems(1) wfrs]
            file_kept_refl symbols_kept_refl]) (use skip(2) in auto)
  next
    case assign
    let ?S = "reloc_target File R"
    let ?w1 = "w\<lparr>symbols := (symbols w)(?S := (symbols w ?S)\<lparr>TableIndex := Some n\<rparr>),
                  IndirectFunctions := IndirectFunctions w @ [?S]\<rparr>"
    have sym: "getFunctionSymbol w File (RelocIndex R) = Inr ?S"
      using wfR assign(1) unfolding reloc_wf_def getFunctionSymbol_def reloc_target_def by simp
    have eq: "HandleRelocs_loop (R # rs) File n w = HandleRelocs_loop rs File (n + 1) ?w1"
      using assign sym unfolding is_table_reloc_def by auto
    have inv1: "table_inv (n + 1) ?w1"
      by (rule table_inv_assign[OF Cons.prems(1) assign(2) assign(3)])
    have sk: "symbols_kept w ?w1"
      by (rule symbols_kept_assign[OF assign(2)])
    have wf1: "\<forall>R'\<in>set rs. reloc_wf ?w1 File R'"
      using wfrs reloc_wf_kept[OF _ file_kept_refl sk] by blast
    show ?thesis
      by (rule HandleRelocs_loop_continue[OF eq Cons.IH[OF inv1 wf1] file_kept_refl sk]) simp
  next
    case type
    let ?i = "RelocIndex R"
    obtain i w1 where reg: "registerType (ObjTypes File ! ?i) w = (i, w1)"
      by (cases "registerType (ObjTypes File ! ?i) w") blast
    let ?F1 = "File\<lparr>TypeMap := (TypeMap File)[?i := i],
                    TypeIsUsed := (TypeIsUsed File)[?i := True]\<rparr>"
    have rng: "?i < length (ObjTypes File)" "?i < length (TypeMap File)"
      "?i < length (TypeIsUsed File)"
      using wfR type(2) unfolding reloc_wf_def by simp_all
    have eq: "HandleRelocs_loop (R # rs) File n w = HandleRelocs_loop rs ?F1 n w1"
      using type rng reg unfolding is_table_reloc_def by simp
    have fk: "file_kept File ?F1"
      unfolding file_kept_def by simp
    have inv1: "table_inv n w1" and sk: "symbols_kept w w1"
      using table_inv_registerType[OF reg Cons.prems(1)] by simp_all
    have wf1: "\<forall>R'\<in>set rs. reloc_wf w1 ?F1 R'"
      using wfrs reloc_wf_kept[OF _ fk sk] by blast
    show ?thesis
      by (rule HandleRelocs_loop_continue[OF eq Cons.IH[OF inv1 wf1] fk sk])
         (use type(1) in simp)
  next
    case other
    have eq: "HandleRelocs_loop (R # rs) File n w = HandleRelocs_loop rs File n w"
      using other unfolding is_table_reloc_def by simp
    show ?thesis
      by (rule HandleRelocs_loop_continue[OF eq Cons.IH[OF Cons.prems(1) wfrs]
            file_kept_refl symbols_kept_refl]) (use other(1) in simp)
  qed
qed

lemma assignIndexes_relocs_files_Cons:
  "assignIndexes_relocs_files (File # Files) n w =
     (case HandleRelocs_loop (file_relocs File) File n w of
        Inl e \<Rightarrow> Inl e
      | Inr (File', n', w') \<Rightarrow>
          (case assignIndexes_relocs_files Files n' w' of
             Inl e \<Rightarrow> Inl e
           | Inr (Files', n'', w'') \<Rightarrow> Inr (File' # Files', n'', w'')))"
proof -
  have fk: "Functions F' = Functions F \<and> FileSegments F' = FileSegments F
            \<and> CustomSections F' = CustomSections F"
    if "HandleRelocs_loop rs F n w = Inr (F', n', w')" for rs F n w F' n' w'
    using that
    by (induction rs F n w rule: HandleRelocs_loop.induct)
       (auto split: sum.splits prod.splits if_splits)
  show ?thesis
    unfolding file_relocs_def HandleRelocs_loop_append
    by (auto simp: HandleRelocs_chunks_flat dest: fk split: sum.splits prod.splits)
qed


lemma assignIndexes_relocs_files_result:
  assumes "table_inv n w"
    and "\<forall>File\<in>set Files. \<forall>R\<in>set (file_relocs File). reloc_wf w File R"
  shows "\<exists>Files' n' w'. assignIndexes_relocs_files Files n w = Inr (Files', n', w')
           \<and> table_inv n' w' \<and> symbols_kept w w'
           \<and> (\<forall>File\<in>set Files. \<forall>R\<in>set (file_relocs File). is_table_reloc R
                  \<longrightarrow> FunctionIndex (symbols w (reloc_target File R)) \<noteq> None
                  \<longrightarrow> TableIndex (symbols w' (reloc_target File R)) \<noteq> None)"
  using assms
proof (induction Files arbitrary: n w)
  case Nil
  then show ?case by (simp add: symbols_kept_refl)
next
  case (Cons File Files)
  have wfF: "\<forall>R\<in>set (file_relocs File). reloc_wf w File R"
    and wfFs: "\<forall>F\<in>set Files. \<forall>R\<in>set (file_relocs F). reloc_wf w F R"
    using Cons.prems(2) by simp_all
  from HandleRelocs_loop_result[OF Cons.prems(1) wfF] obtain File1 n1 w1 where
    r1: "HandleRelocs_loop (file_relocs File) File n w = Inr (File1, n1, w1)"
    and inv1: "table_inv n1 w1" and sk1: "symbols_kept w w1"
    and h1: "\<And>R. R \<in> set (file_relocs File) \<Longrightarrow> is_table_reloc R
               \<Longrightarrow> FunctionIndex (symbols w (reloc_target File R)) \<noteq> None
               \<Longrightarrow> TableIndex (symbols w1 (reloc_target File R)) \<noteq> None"
    by blast
  have wf1: "\<forall>F\<in>set Files. \<forall>R\<in>set (file_relocs F). reloc_wf w1 F R"
    using wfFs reloc_wf_kept[OF _ file_kept_refl sk1] by blast
  from Cons.IH[OF inv1 wf1] obtain Files' n' w' where
    r2: "assignIndexes_relocs_files Files n1 w1 = Inr (Files', n', w')"
    and inv2: "table_inv n' w'" and sk2: "symbols_kept w1 w'"
    and h2: "\<And>F R. F \<in> set Files \<Longrightarrow> R \<in> set (file_relocs F) \<Longrightarrow> is_table_reloc R
               \<Longrightarrow> FunctionIndex (symbols w1 (reloc_target F R)) \<noteq> None
               \<Longrightarrow> TableIndex (symbols w' (reloc_target F R)) \<noteq> None"
    by blast
  have fidx: "FunctionIndex (symbols w1 S) = FunctionIndex (symbols w S)" for S
    using sk1 unfolding symbols_kept_def by simp
  have keep: "TableIndex (symbols w' S) \<noteq> None" if "TableIndex (symbols w1 S) \<noteq> None" for S
    using sk2 that unfolding symbols_kept_def by simp
  have all: "TableIndex (symbols w' (reloc_target F R)) \<noteq> None"
    if "F \<in> set (File # Files)" "R \<in> set (file_relocs F)" "is_table_reloc R"
      "FunctionIndex (symbols w (reloc_target F R)) \<noteq> None" for F R
  proof (cases "F \<in> set Files")
    case True
    then show ?thesis using h2[of F R] that fidx by simp
  next
    case False
    then have "F = File" using that(1) by simp
    then show ?thesis using h1[of R] that keep by simp
  qed
  have res: "assignIndexes_relocs_files (File # Files) n w = Inr (File1 # Files', n', w')"
    unfolding assignIndexes_relocs_files_Cons using r1 r2 by simp
  show ?case
    by (intro exI[of _ "File1 # Files'"] exI[of _ n'] exI[of _ w'] conjI ballI impI res inv2
          symbols_kept_trans[OF sk1 sk2] all)
qed

lemma createElemSection_loop_result:
  assumes "\<forall>k < length Ss. TableIndex (symbols w (Ss ! k)) = Some (n + of_nat k)
                           \<and> FunctionIndex (symbols w (Ss ! k)) \<noteq> None"
  shows "createElemSection_loop asserts w Ss n
         = Inr (concat (map (\<lambda>S. writeUleb128 (unat (the (FunctionIndex (symbols w S))))) Ss))"
  using assms
proof (induction Ss arbitrary: n)
  case Nil
  then show ?case by simp
next
  case (Cons S Ss)
  have hd: "TableIndex (symbols w S) = Some n" "FunctionIndex (symbols w S) \<noteq> None"
    using Cons.prems[rule_format, of 0] by simp_all
  have tl: "\<forall>k < length Ss. TableIndex (symbols w (Ss ! k)) = Some (n + 1 + of_nat k)
                           \<and> FunctionIndex (symbols w (Ss ! k)) \<noteq> None"
  proof (intro allI impI)
    fix k assume "k < length Ss"
    then show "TableIndex (symbols w (Ss ! k)) = Some (n + 1 + of_nat k)
               \<and> FunctionIndex (symbols w (Ss ! k)) \<noteq> None"
      using Cons.prems[rule_format, of "Suc k"] by (simp add: add.assoc)
  qed
  from hd(2) obtain i where i: "FunctionIndex (symbols w S) = Some i" by blast
  show ?case
    using hd(1) i Cons.IH[OF tl] by (simp add: getFunctionIndex_def)
qed

lemma table_indices_distinct:
  fixes Ss :: "symref list"
  assumes "\<forall>k < length Ss. TableIndex (symbols w (Ss ! k)) = Some (1 + of_nat k)"
    and "length Ss < 2 ^ 32"
  shows "distinct (map (\<lambda>S. TableIndex (symbols w S)) Ss)"
proof -
  have "i = j" if "i < length Ss" "j < length Ss"
    "TableIndex (symbols w (Ss ! i)) = TableIndex (symbols w (Ss ! j))" for i j
  proof -
    have "(of_nat i :: u32) = of_nat j"
      using assms(1)[rule_format, OF that(1)] assms(1)[rule_format, OF that(2)] that(3) by simp
    moreover have "i < 2 ^ 32" "j < 2 ^ 32" using that(1,2) assms(2) by simp_all
    ultimately show ?thesis
      by (simp add: word_of_nat_eq_iff take_bit_nat_eq_self)
  qed
  then show ?thesis
    unfolding distinct_conv_nth by (metis length_map nth_map)
qed

text \<open>
  C4. The claim holds for the targets that have a function index. Started with no table
  index assigned and \<^verbatim>\<open>IndirectFunctions\<close> empty, over files whose table-index relocations
  name function symbols and whose type-index relocations name types, the relocation walk
  of \<^verbatim>\<open>assignIndexes\<close> returns; the target of a table-index relocation of a live chunk has a
  table index afterwards exactly when it has a function index; the symbols that have a
  table index are the entries of \<^verbatim>\<open>IndirectFunctions\<close>, which are distinct; the entry at
  position \<open>k\<close> has table index \<open>1 + k\<close> (so below \<open>2^32\<close> entries the indices are
  distinct); and \<^verbatim>\<open>createElemSection\<close> writes nothing when \<^verbatim>\<open>IndirectFunctions\<close> is empty,
  and otherwise one segment for table 0 at offset 1 with the function indices of the
  entries in this order.
\<close>

theorem table_indices_consecutive_and_listed:
  assumes "IndirectFunctions w = []"
    and "\<forall>S. TableIndex (symbols w S) = None"
    and "\<forall>File\<in>set ObjectFiles. \<forall>R\<in>set (file_relocs File). reloc_wf w File R"
  shows "\<exists>Files' n' w'. assignIndexes_relocs ObjectFiles w = Inr (Files', n', w')
     \<and> (\<forall>File\<in>set ObjectFiles. \<forall>R\<in>set (file_relocs File). is_table_reloc R
          \<longrightarrow> (TableIndex (symbols w' (reloc_target File R)) \<noteq> None)
               = (FunctionIndex (symbols w (reloc_target File R)) \<noteq> None))
     \<and> (\<forall>S. (TableIndex (symbols w' S) \<noteq> None) = (S \<in> set (IndirectFunctions w')))
     \<and> distinct (IndirectFunctions w')
     \<and> (\<forall>k < length (IndirectFunctions w').
           TableIndex (symbols w' (IndirectFunctions w' ! k)) = Some (1 + of_nat k))
     \<and> (length (IndirectFunctions w') < 2 ^ 32
          \<longrightarrow> distinct (map (\<lambda>S. TableIndex (symbols w' S)) (IndirectFunctions w')))
     \<and> createElemSection asserts writeInitExpr w'
         = Inr (if IndirectFunctions w' = [] then None
                else Some (writeUleb128 1 @ writeUleb128 0
                           @ writeInitExpr (WasmInitExpr WASM_OPCODE_I32_CONST 1)
                           @ writeUleb128 (length (IndirectFunctions w'))
                           @ concat (map (\<lambda>S. writeUleb128 (unat (the (FunctionIndex (symbols w' S)))))
                                       (IndirectFunctions w'))))"
proof -
  have inv0: "table_inv (of_nat kInitialTableOffset) w"
    using assms(1,2) unfolding table_inv_def kInitialTableOffset_def by simp
  from assignIndexes_relocs_files_result[OF inv0 assms(3)] obtain Files' n' w' where
    r: "assignIndexes_relocs_files ObjectFiles (of_nat kInitialTableOffset) w = Inr (Files', n', w')"
    and inv: "table_inv n' w'" and sk: "symbols_kept w w'"
    and handled: "\<forall>File\<in>set ObjectFiles. \<forall>R\<in>set (file_relocs File). is_table_reloc R
                  \<longrightarrow> FunctionIndex (symbols w (reloc_target File R)) \<noteq> None
                  \<longrightarrow> TableIndex (symbols w' (reloc_target File R)) \<noteq> None"
    by (elim exE conjE)
  have h: "TableIndex (symbols w' (reloc_target F R)) \<noteq> None"
    if "F \<in> set ObjectFiles" "R \<in> set (file_relocs F)" "is_table_reloc R"
      "FunctionIndex (symbols w (reloc_target F R)) \<noteq> None" for F R
    using handled[rule_format, OF that] .
  have dist: "distinct (IndirectFunctions w')"
    using inv unfolding table_inv_def by blast
  have nth: "TableIndex (symbols w' (IndirectFunctions w' ! k)) = Some (1 + of_nat k)
             \<and> FunctionIndex (symbols w' (IndirectFunctions w' ! k)) \<noteq> None"
    if "k < length (IndirectFunctions w')" for k
    using inv that unfolding table_inv_def by blast
  have only: "S \<in> set (IndirectFunctions w')" if "TableIndex (symbols w' S) \<noteq> None" for S
    using inv that unfolding table_inv_def by blast
  have member: "TableIndex (symbols w' S) \<noteq> None \<and> FunctionIndex (symbols w' S) \<noteq> None"
    if "S \<in> set (IndirectFunctions w')" for S
  proof -
    from that obtain k where "k < length (IndirectFunctions w')" "IndirectFunctions w' ! k = S"
      by (auto simp: in_set_conv_nth)
    then show ?thesis using nth[of k] by auto
  qed
  have fidx: "FunctionIndex (symbols w' S) = FunctionIndex (symbols w S)" for S
    using sk unfolding symbols_kept_def by simp
  have c1: "(TableIndex (symbols w' (reloc_target F R)) \<noteq> None)
            = (FunctionIndex (symbols w (reloc_target F R)) \<noteq> None)"
    if "F \<in> set ObjectFiles" "R \<in> set (file_relocs F)" "is_table_reloc R" for F R
  proof
    assume "TableIndex (symbols w' (reloc_target F R)) \<noteq> None"
    then have "reloc_target F R \<in> set (IndirectFunctions w')" by (rule only)
    then have "FunctionIndex (symbols w' (reloc_target F R)) \<noteq> None" using member by blast
    then show "FunctionIndex (symbols w (reloc_target F R)) \<noteq> None" using fidx by simp
  next
    assume "FunctionIndex (symbols w (reloc_target F R)) \<noteq> None"
    then show "TableIndex (symbols w' (reloc_target F R)) \<noteq> None" by (rule h[OF that])
  qed
  have c2: "(TableIndex (symbols w' S) \<noteq> None) = (S \<in> set (IndirectFunctions w'))" for S
    using only[of S] member[of S] by blast
  have c4: "TableIndex (symbols w' (IndirectFunctions w' ! k)) = Some (1 + of_nat k)"
    if "k < length (IndirectFunctions w')" for k
    using nth[OF that] by simp
  have c5: "distinct (map (\<lambda>S. TableIndex (symbols w' S)) (IndirectFunctions w'))"
    if "length (IndirectFunctions w') < 2 ^ 32"
    by (rule table_indices_distinct[OF _ that]) (use c4 in blast)
  have loop: "createElemSection_loop asserts w' (IndirectFunctions w') 1
         = Inr (concat (map (\<lambda>S. writeUleb128 (unat (the (FunctionIndex (symbols w' S)))))
                          (IndirectFunctions w')))"
    by (rule createElemSection_loop_result) (use nth in blast)
  have c6: "createElemSection asserts writeInitExpr w'
         = Inr (if IndirectFunctions w' = [] then None
                else Some (writeUleb128 1 @ writeUleb128 0
                           @ writeInitExpr (WasmInitExpr WASM_OPCODE_I32_CONST 1)
                           @ writeUleb128 (length (IndirectFunctions w'))
                           @ concat (map (\<lambda>S. writeUleb128 (unat (the (FunctionIndex (symbols w' S)))))
                                       (IndirectFunctions w'))))"
    unfolding createElemSection_def kInitialTableOffset_def using loop by simp
  have res: "assignIndexes_relocs ObjectFiles w = Inr (Files', n', w')"
    unfolding assignIndexes_relocs_def using r .
  show ?thesis
    by (intro exI[of _ Files'] exI[of _ n'] exI[of _ w'] conjI ballI impI allI res c1 c2 dist c4
          c5 c6)
qed


theorem table_indices_consecutive_and_listed_witness:
  "IndirectFunctions (new_Writer example_table_store) = []
   \<and> (\<forall>S. TableIndex (symbols (new_Writer example_table_store) S) = None)
   \<and> list_all (\<lambda>File. list_all (reloc_wf (new_Writer example_table_store) File) (file_relocs File))
        example_table_files
   \<and> (\<exists>Files' n' w'.
         assignIndexes_relocs example_table_files (new_Writer example_table_store)
           = Inr (Files', n', w')
         \<and> IndirectFunctions w' = [1, 0]
         \<and> TableIndex (symbols w' 1) = Some 1
         \<and> TableIndex (symbols w' 0) = Some 2
         \<and> TableIndex (symbols w' 2) = None
         \<and> createElemSection True (\<lambda>e. [Opcode e, of_nat (Int32 e), OPCODE_END]) w'
             = Inr (Some [1, 0, 0x41, 1, 0x0B, 2, 1, 0]))"
proof -
  let ?w = "new_Writer example_table_store"
  let ?ie = "\<lambda>e. [Opcode e, of_nat (Int32 e), OPCODE_END]"
  have h1: "IndirectFunctions ?w = []"
    by (simp add: new_Writer_def)
  have h2: "\<forall>S. TableIndex (symbols ?w S) = None"
    by (simp add: new_Writer_def example_table_store_def example_symbol_def)
  have h3l: "list_all (\<lambda>File. list_all (reloc_wf ?w File) (file_relocs File)) example_table_files"
    by (simp add: example_table_files_def example_file_def file_relocs_def live_relocs_def
        reloc_wf_def is_table_reloc_def new_Writer_def example_table_store_def
        example_symbol_def isFunctionSymbol_def)
  have h3: "\<forall>File\<in>set example_table_files. \<forall>R\<in>set (file_relocs File). reloc_wf ?w File R"
    using h3l by (simp add: list_all_iff)
  have ev: "(case assignIndexes_relocs example_table_files ?w of
               Inl e \<Rightarrow> False
             | Inr (Files', n', w') \<Rightarrow>
                 IndirectFunctions w' = [1, 0] \<and> FunctionIndex (symbols w' 0) = Some 0
                 \<and> FunctionIndex (symbols w' 1) = Some 1)"
    by (simp add: assignIndexes_relocs_def example_table_files_def example_file_def
        HandleRelocs_def kInitialTableOffset_def getFunctionSymbol_def isFunctionSymbol_def
        registerType_def new_Writer_def example_table_store_def example_symbol_def)
  from table_indices_consecutive_and_listed[OF h1 h2 h3, of True ?ie] obtain Files' n' w' where
    r: "assignIndexes_relocs example_table_files ?w = Inr (Files', n', w')"
    and mem: "\<forall>S. (TableIndex (symbols w' S) \<noteq> None) = (S \<in> set (IndirectFunctions w'))"
    and nth: "\<forall>k < length (IndirectFunctions w').
                TableIndex (symbols w' (IndirectFunctions w' ! k)) = Some (1 + of_nat k)"
    and elem: "createElemSection True ?ie w'
         = Inr (if IndirectFunctions w' = [] then None
                else Some (writeUleb128 1 @ writeUleb128 0
                           @ ?ie (WasmInitExpr WASM_OPCODE_I32_CONST 1)
                           @ writeUleb128 (length (IndirectFunctions w'))
                           @ concat (map (\<lambda>S. writeUleb128 (unat (the (FunctionIndex (symbols w' S)))))
                                       (IndirectFunctions w'))))"
    by (elim exE conjE)
  have ind: "IndirectFunctions w' = [1, 0]"
    and f0: "FunctionIndex (symbols w' 0) = Some 0"
    and f1: "FunctionIndex (symbols w' 1) = Some 1"
    using ev unfolding r by simp_all
  have t1: "TableIndex (symbols w' 1) = Some 1"
    using nth[rule_format, of 0] unfolding ind by simp
  have t0: "TableIndex (symbols w' 0) = Some 2"
    using nth[rule_format, of 1] unfolding ind by simp
  have t2: "TableIndex (symbols w' 2) = None"
    using mem[rule_format, of 2] unfolding ind by simp
  have sec: "createElemSection True ?ie w' = Inr (Some [1, 0, 0x41, 1, 0x0B, 2, 1, 0])"
    unfolding elem ind using f0 f1
    by (simp add: writeUleb128.simps WASM_OPCODE_I32_CONST_def OPCODE_END_def)
  show ?thesis
    by (intro conjI h1 h2 h3l exI[of _ Files'] exI[of _ n'] exI[of _ w'] r ind t1 t0 t2 sec)
qed

text \<open>
  C4, as stated, fails on a target without a function index: a weak undefined function that
  is not imported. The live function of the file has a table-index relocation on it; after
  the walk the symbol has no table index, \<^verbatim>\<open>IndirectFunctions\<close> is empty and no Elem section
  is written.
\<close>

theorem table_reloc_target_unassigned_counterexample:
  "WasmRelocation R_WEBASSEMBLY_TABLE_INDEX_SLEB 0 \<in> set (file_relocs example_hook_file)
   \<and> is_table_reloc (WasmRelocation R_WEBASSEMBLY_TABLE_INDEX_SLEB 0)
   \<and> (\<exists>Files' n' w'.
         assignIndexes_relocs [example_hook_file] (new_Writer example_table_store)
           = Inr (Files', n', w')
         \<and> TableIndex (symbols w'
              (reloc_target example_hook_file (WasmRelocation R_WEBASSEMBLY_TABLE_INDEX_SLEB 0)))
             = None
         \<and> IndirectFunctions w' = []
         \<and> createElemSection True (\<lambda>e. [Opcode e, of_nat (Int32 e), OPCODE_END]) w' = Inr None)"
  by (simp add: assignIndexes_relocs_def example_hook_file_def example_file_def file_relocs_def
      live_relocs_def is_table_reloc_def reloc_target_def HandleRelocs_def
      kInitialTableOffset_def getFunctionSymbol_def isFunctionSymbol_def new_Writer_def
      example_table_store_def example_symbol_def createElemSection_def)

end
